theory Spec2Isabelle
  imports Main "HOL-Library.Sublist" "HOL-Library.AList"
begin

section \<open>JavaScript values used by the reconciliation code\<close>

text \<open>
  Strings are byte lists. A field that may be \<^verbatim>\<open>undefined\<close> or \<^verbatim>\<open>null\<close> is an
  \<open>option\<close>. \<open>js_or x d\<close> is \<^verbatim>\<open>x || d\<close> for a string-or-undefined \<open>x\<close>: the empty
  string is falsy as well.
\<close>

definition truthy :: "string option \<Rightarrow> bool" where
  "truthy x = (case x of None \<Rightarrow> False | Some s \<Rightarrow> s \<noteq> [])"

definition js_or :: "string option \<Rightarrow> string \<Rightarrow> string" where
  "js_or x d = (case x of None \<Rightarrow> d | Some s \<Rightarrow> if s = [] then d else s)"

definition is_space :: "char \<Rightarrow> bool" where
  "is_space c = (c \<in> set [CHR '' '', CHR 0x09, CHR 0x0A, CHR 0x0B, CHR 0x0C, CHR 0x0D])"

definition trim :: "string \<Rightarrow> string" where
  "trim s = rev (dropWhile is_space (rev (dropWhile is_space s)))"

definition toLowerCase_char :: "char \<Rightarrow> char" where
  "toLowerCase_char c =
     (case map_of (zip ''ABCDEFGHIJKLMNOPQRSTUVWXYZ'' ''abcdefghijklmnopqrstuvwxyz'') c of
        Some d \<Rightarrow> d | None \<Rightarrow> c)"

definition toLowerCase :: "string \<Rightarrow> string" where
  "toLowerCase s = map toLowerCase_char s"

text \<open>\<^verbatim>\<open>s.includes(t)\<close>: \<open>t\<close> occurs in \<open>s\<close> as a contiguous run.\<close>

definition js_includes :: "string \<Rightarrow> string \<Rightarrow> bool" where
  "js_includes s t = sublist t s"

text \<open>\<^verbatim>\<open>s.split(", ")\<close>.\<close>

fun cons_head :: "char \<Rightarrow> string list \<Rightarrow> string list" where
  "cons_head c [] = [[c]]"
| "cons_head c (w # ws) = (c # w) # ws"

fun split_comma_space :: "string \<Rightarrow> string list" where
  "split_comma_space [] = [[]]"
| "split_comma_space [c] = [[c]]"
| "split_comma_space (a # b # cs) =
     (if a = CHR '','' \<and> b = CHR '' '' then [] # split_comma_space cs
      else cons_head a (split_comma_space (b # cs)))"

text \<open>Decimal rendering of a number inside a template literal.\<close>

definition digit_char :: "nat \<Rightarrow> char" where
  "digit_char d = ''0123456789'' ! d"

fun string_of_nat :: "nat \<Rightarrow> string" where
  "string_of_nat n =
     (if n < 10 then [digit_char n] else string_of_nat (n div 10) @ [digit_char (n mod 10)])"

declare string_of_nat.simps [simp del]

text \<open>
  \<^verbatim>\<open>Math.round(n / 100)\<close> for an integer \<open>n\<close>: the nearest integer, a half rounded
  towards plus infinity.
\<close>

definition round_div_100 :: "int \<Rightarrow> int" where
  "round_div_100 n = (n + 50) div 100"

section \<open>Data model\<close>

type_synonym oid = int

text \<open>\<^verbatim>\<open>item.product_variation.product\<close> of a vendor feed item.\<close>

record feed_product =
  manufacturer :: "string option"
  model :: "string option"
  f_color :: "string option"
  f_capacity :: "string option"
  f_variant :: "string option"

record feed_variation =
  pv_product :: "feed_product option"
  grade :: "string option"
  sku :: "string option"

record item =
  item_id :: "nat option"
  status :: "string option"
  esn :: "string option"
  hex_id :: "string option"
  total_price_paid :: "int option"
  product_variation :: "feed_variation option"

record selected_option =
  color :: string
  variant :: string
  stock :: int
  price :: int
  discount :: int
  uniqueNumbers :: "string list"
  opt_id :: oid

definition empty_product :: feed_product where
  "empty_product = \<lparr>manufacturer = None, model = None, f_color = None, f_capacity = None,
     f_variant = None\<rparr>"

definition empty_variation :: feed_variation where
  "empty_variation = \<lparr>pv_product = None, grade = None, sku = None\<rparr>"

text \<open>\<^verbatim>\<open>item.product_variation || {}\<close> and \<^verbatim>\<open>item.product_variation?.product || {}\<close>.\<close>

definition variation_of :: "item \<Rightarrow> feed_variation" where
  "variation_of it = (case product_variation it of None \<Rightarrow> empty_variation | Some v \<Rightarrow> v)"

definition product_of :: "item \<Rightarrow> feed_product" where
  "product_of it =
     (case product_variation it of None \<Rightarrow> empty_product
      | Some v \<Rightarrow> (case pv_product v of None \<Rightarrow> empty_product | Some p \<Rightarrow> p))"

text \<open>\<^verbatim>\<open>item.esn || item.hex_id || variation.sku || `item_${item.id}`\<close>.\<close>

definition id_string :: "nat option \<Rightarrow> string" where
  "id_string i = (case i of None \<Rightarrow> ''undefined'' | Some n \<Rightarrow> string_of_nat n)"

definition unit_identifier :: "item \<Rightarrow> string" where
  "unit_identifier it =
     js_or (esn it) (js_or (hex_id it) (js_or (sku (variation_of it))
       (''item_'' @ id_string (item_id it))))"

text \<open>\<^verbatim>\<open>`${color}_${variant}`\<close>, the key of an option in the options map.\<close>

definition optionKey :: "string \<Rightarrow> string \<Rightarrow> string" where
  "optionKey c v = c @ ''_'' @ v"

definition key_of :: "selected_option \<Rightarrow> string" where
  "key_of opt = optionKey (color opt) (variant opt)"

text \<open>
  A JavaScript \<^verbatim>\<open>Map\<close> is an association list in insertion order: \<open>AList.update\<close> is
  \<^verbatim>\<open>set\<close> (a present key keeps its place), \<open>map_of\<close> is \<^verbatim>\<open>get\<close>, and
  \<^verbatim>\<open>Array.from(m.values())\<close> is \<open>map snd\<close>.
\<close>

type_synonym options_map = "(string \<times> selected_option) list"

section \<open>Generic adapter: option aggregation\<close>

definition generic_variant :: "feed_product \<Rightarrow> string" where
  "generic_variant p =
     (let capacity = (case f_capacity p of None \<Rightarrow> []
                      | Some n \<Rightarrow> if n = [] then [] else n @ ''GB'')
      in js_or (f_variant p) (js_or (Some capacity) ''Standard''))"

text \<open>
  One pass of the \<^verbatim>\<open>forEach\<close> body of \<^verbatim>\<open>createSelectedOptions\<close>. The second
  component of the state is the supply of fresh object identifiers
  (\<^verbatim>\<open>new ObjectId()\<close>).
\<close>

definition createSelectedOptions_step ::
  "item \<Rightarrow> options_map \<times> oid \<Rightarrow> options_map \<times> oid" where
  "createSelectedOptions_step it st =
     (let (optionsMap, fresh) = st;
          p = product_of it;
          c = js_or (f_color p) ''Unknown'';
          v = generic_variant p;
          k = optionKey c v;
          (optionsMap1, fresh1) =
            (if map_of optionsMap k = None
             then (AList.update k \<lparr>color = c, variant = v, stock = 0,
                      price = (case total_price_paid it of None \<Rightarrow> 0 | Some n \<Rightarrow> n),
                      discount = 0, uniqueNumbers = [], opt_id = fresh\<rparr> optionsMap,
                   fresh + 1)
             else (optionsMap, fresh))
      in case map_of optionsMap1 k of
           None \<Rightarrow> (optionsMap1, fresh1)
         | Some opt \<Rightarrow>
             if status it \<noteq> Some ''Sold''
             then (AList.update k (opt\<lparr>stock := stock opt + 1,
                      uniqueNumbers := uniqueNumbers opt @ [unit_identifier it]\<rparr>) optionsMap1,
                   fresh1)
             else (optionsMap1, fresh1))"

definition createSelectedOptions :: "item list \<Rightarrow> oid \<Rightarrow> selected_option list \<times> oid" where
  "createSelectedOptions items fresh =
     (let (optionsMap, fresh') = fold createSelectedOptions_step items ([], fresh)
      in (map snd optionsMap, fresh'))"

section \<open>Restricted adapter: merging options into a persisted record\<close>

definition merge_existing_step :: "selected_option \<Rightarrow> options_map \<Rightarrow> options_map" where
  "merge_existing_step opt merged = AList.update (key_of opt) opt merged"

definition merge_new_step :: "selected_option \<Rightarrow> options_map \<Rightarrow> options_map" where
  "merge_new_step opt merged =
     (case map_of merged (key_of opt) of
        Some existing \<Rightarrow>
          (let p = min (price existing) (price opt)
           in AList.update (key_of opt)
                (existing\<lparr>stock := stock existing + stock opt,
                   uniqueNumbers := uniqueNumbers existing @ uniqueNumbers opt,
                   price := p, discount := p\<rparr>) merged)
      | None \<Rightarrow> AList.update (key_of opt) opt merged)"

definition mergeSelectedOptions ::
  "selected_option list \<Rightarrow> selected_option list \<Rightarrow> selected_option list" where
  "mergeSelectedOptions existingOptions newOptions =
     map snd (fold merge_new_step newOptions (fold merge_existing_step existingOptions []))"

section \<open>The document store\<close>

text \<open>
  \<^verbatim>\<open>tep_admin_products\<close> holds the catalog, \<^verbatim>\<open>tep_vendor_products\<close> the persisted
  vendor-product records. Timestamps are not modelled. \<open>storage\<close> is
  \<^verbatim>\<open>specifications?.storage\<close>.
\<close>

record admin_product =
  ap_id :: oid
  name :: string
  ap_manufacturer :: string
  ap_model :: string
  category :: string
  imagesByColor :: "string list"
  storage :: "string option"

record vendor_product_data =
  vendorId :: oid
  product :: oid
  condition :: oid
  selectedOptions :: "selected_option list"
  database :: "string option"

record vendor_product = vendor_product_data +
  vp_id :: oid

text \<open>
  The calls the code makes on the store. A call may reject (network, server): \<open>rejects\<close>
  says which ones do, and the awaiting code then throws \<open>StoreError\<close>.
\<close>

datatype db_call =
    AdminFindOne string
  | AdminFindIn "string list"
  | AdminInsertOne string
  | VendorFindOne oid oid oid
  | VendorFind oid
  | VendorBulkWrite

datatype error =
    StoreError db_call
  | FetchError
  | ReferenceError string

text \<open>
  \<open>regex_ext\<close> is the store's regular-expression engine on patterns outside the
  fragment interpreted below (case-insensitive search, pattern first).
\<close>

record db =
  tep_admin_products :: "admin_product list"
  tep_vendor_products :: "vendor_product list"
  rejects :: "db_call \<Rightarrow> bool"
  regex_ext :: "string \<Rightarrow> string \<Rightarrow> bool"

subsection \<open>Regular expressions with the \<^verbatim>\<open>i\<close> option\<close>

text \<open>The character class of \<^verbatim>\<open>escapeRegex\<close>; \<open>CHR 0x5C\<close> is the backslash.\<close>

definition regex_special :: "char \<Rightarrow> bool" where
  "regex_special c = (c \<in> set [CHR ''.'', CHR ''*'', CHR ''+'', CHR ''?'', CHR ''^'', CHR ''$'',
     CHR ''{'', CHR ''}'', CHR ''('', CHR '')'', CHR ''|'', CHR ''['', CHR '']'', CHR 0x5C])"

definition escapeRegex :: "string \<Rightarrow> string" where
  "escapeRegex s = concat (map (\<lambda>c. if regex_special c then [CHR 0x5C, c] else [c]) s)"

text \<open>
  The fragment of patterns given a meaning here: ordinary characters, escaped special
  characters, \<^verbatim>\<open>^\<close> in front and \<^verbatim>\<open>$\<close> at the end. \<open>tokenise\<close> returns \<open>None\<close> on
  any other pattern, and so does \<open>literal_pattern\<close> when an anchor stands elsewhere;
  the engine \<open>regex_ext\<close> of the store decides those.
\<close>

datatype rtok = Lit char | Caret | Dollar

fun tokenise :: "string \<Rightarrow> rtok list option" where
  "tokenise [] = Some []"
| "tokenise (a # cs) =
     (if a = CHR 0x5C then
        (case cs of [] \<Rightarrow> None
         | b # ds \<Rightarrow> if regex_special b then map_option (Cons (Lit b)) (tokenise ds) else None)
      else if a = CHR ''^'' then map_option (Cons Caret) (tokenise cs)
      else if a = CHR ''$'' then map_option (Cons Dollar) (tokenise cs)
      else if regex_special a then None
      else map_option (Cons (Lit a)) (tokenise cs))"

fun literals :: "rtok list \<Rightarrow> string option" where
  "literals [] = Some []"
| "literals (Lit c # ts) = map_option (Cons c) (literals ts)"
| "literals (_ # ts) = None"

text \<open>(anchored at the start, the literal text, anchored at the end)\<close>

definition literal_pattern :: "string \<Rightarrow> (bool \<times> string \<times> bool) option" where
  "literal_pattern pat =
     (case tokenise pat of None \<Rightarrow> None
      | Some toks \<Rightarrow>
          (let l = (case toks of Caret # _ \<Rightarrow> True | _ \<Rightarrow> False);
               t1 = (if l then tl toks else toks);
               r = (case rev t1 of Dollar # _ \<Rightarrow> True | _ \<Rightarrow> False);
               t2 = (if r then butlast t1 else t1)
           in map_option (\<lambda>lit. (l, lit, r)) (literals t2)))"

definition regex_i :: "(string \<Rightarrow> string \<Rightarrow> bool) \<Rightarrow> string \<Rightarrow> string \<Rightarrow> bool" where
  "regex_i ext pat s =
     (case literal_pattern pat of
        None \<Rightarrow> ext pat s
      | Some (l, lit, r) \<Rightarrow>
          (let t = toLowerCase lit; u = toLowerCase s
           in if l \<and> r then u = t
              else if l then prefix t u
              else if r then suffix t u
              else sublist t u))"

subsection \<open>Queries on the catalog\<close>

definition admin_findOne :: "db \<Rightarrow> string \<Rightarrow> error + admin_product option" where
  "admin_findOne d pat =
     (if rejects d (AdminFindOne pat) then Inl (StoreError (AdminFindOne pat))
      else Inr (find (\<lambda>p. regex_i (regex_ext d) pat (name p)) (tep_admin_products d)))"

definition admin_find_in :: "db \<Rightarrow> string list \<Rightarrow> error + admin_product list" where
  "admin_find_in d names =
     (if rejects d (AdminFindIn names) then Inl (StoreError (AdminFindIn names))
      else Inr (filter (\<lambda>p. name p \<in> set names) (tep_admin_products d)))"

section \<open>Product resolution\<close>

text \<open>\<^verbatim>\<open>`${productData.manufacturer || ""} ${productData.model || ""}`.trim()\<close>\<close>

definition candidate_name :: "feed_product \<Rightarrow> string" where
  "candidate_name productData =
     trim (js_or (manufacturer productData) [] @ '' '' @ js_or (model productData) [])"

text \<open>Restricted adapter: lookup only.\<close>

definition findExistingProduct :: "feed_product \<Rightarrow> db \<Rightarrow> error + admin_product option" where
  "findExistingProduct productData d =
     (let nm = candidate_name productData
      in case admin_findOne d (''^'' @ escapeRegex nm @ ''$'') of
           Inl e \<Rightarrow> Inl e
         | Inr (Some p) \<Rightarrow> Inr (Some p)
         | Inr None \<Rightarrow> if length nm > 3 then admin_findOne d (escapeRegex nm) else Inr None)"

text \<open>
  Generic adapter: lookup, then insertion. The state is the store and the supply of
  fresh object identifiers; a rejected call leaves both as they were.
\<close>

definition findOrCreateProduct ::
  "feed_product \<Rightarrow> db \<times> oid \<Rightarrow> error + (admin_product \<times> db \<times> oid)" where
  "findOrCreateProduct productData st =
     (let (d, fresh) = st; nm = candidate_name productData
      in case admin_findOne d nm of
           Inl e \<Rightarrow> Inl e
         | Inr (Some p) \<Rightarrow> Inr (p, d, fresh)
         | Inr None \<Rightarrow>
             if rejects d (AdminInsertOne nm) then Inl (StoreError (AdminInsertOne nm))
             else
               (let newProduct = \<lparr>ap_id = fresh, name = nm,
                      ap_manufacturer = js_or (manufacturer productData) ''Unknown'',
                      ap_model = js_or (model productData) [],
                      category = js_or (manufacturer productData) ''Unknown'',
                      imagesByColor = [], storage = None\<rparr>
                in Inr (newProduct,
                        d\<lparr>tep_admin_products := tep_admin_products d @ [newProduct]\<rparr>,
                        fresh + 1)))"

section \<open>Grouping\<close>

record group_data =
  g_product :: feed_product
  g_variation :: feed_variation
  g_condition :: string
  g_items :: "item list"

definition groupKey_of :: "item \<Rightarrow> string" where
  "groupKey_of it =
     (let p = product_of it;
          productKey = trim (js_or (manufacturer p) [] @ ''_'' @ js_or (model p) []);
          conditionKey = js_or (grade (variation_of it)) ''Unknown''
      in productKey @ ''_'' @ conditionKey)"

definition group_step ::
  "item \<Rightarrow> (string \<times> group_data) list \<Rightarrow> (string \<times> group_data) list" where
  "group_step it grouped =
     (let k = groupKey_of it;
          grouped1 =
            (if map_of grouped k = None
             then AList.update k \<lparr>g_product = product_of it, g_variation = variation_of it,
                    g_condition = js_or (grade (variation_of it)) ''Unknown'', g_items = []\<rparr>
                    grouped
             else grouped)
      in case map_of grouped1 k of
           None \<Rightarrow> grouped1
         | Some g \<Rightarrow> AList.update k (g\<lparr>g_items := g_items g @ [it]\<rparr>) grouped1)"

definition groupItemsByProductAndCondition :: "item list \<Rightarrow> (string \<times> group_data) list" where
  "groupItemsByProductAndCondition items = fold group_step items []"

section \<open>Restricted adapter: option aggregation\<close>

definition findMatchingStorageSpec :: "string option \<Rightarrow> string \<Rightarrow> string" where
  "findMatchingStorageSpec storageSpec capacity =
     (case storageSpec of
        None \<Rightarrow> ''Unknown''
      | Some spec \<Rightarrow>
          if spec = [] \<or> capacity = [] then ''Unknown''
          else
            (let storageOptions = split_comma_space spec
             in case find (\<lambda>opt. js_includes opt (capacity @ ''GB'')) storageOptions of
                  Some opt \<Rightarrow> opt
                | None \<Rightarrow>
                    (case find (\<lambda>opt. js_includes opt capacity) storageOptions of
                       Some opt \<Rightarrow> opt
                     | None \<Rightarrow> ''Unknown'')))"

text \<open>
  The variant of one item, from \<^verbatim>\<open>adminProduct?.specifications?.storage\<close> of the
  catalog product found under the item's lower-cased name.
\<close>

definition wholecell_variant :: "string option \<Rightarrow> string \<Rightarrow> string" where
  "wholecell_variant spec capacity =
     (if capacity \<noteq> [] \<and> truthy spec then findMatchingStorageSpec spec capacity
      else if capacity \<noteq> [] then capacity @ ''GB 4GB RAM''
      else ''Unknown'')"

text \<open>
  \<^verbatim>\<open>adminProductMap\<close>: the catalog products found, under their lower-cased names; a
  later product of the same lower-cased name replaces an earlier one.
\<close>

definition build_adminProductMap :: "admin_product list \<Rightarrow> (string \<times> admin_product) list" where
  "build_adminProductMap adminProducts =
     fold (\<lambda>p m. AList.update (toLowerCase (name p)) p m) adminProducts []"

definition item_variant :: "(string \<times> admin_product) list \<Rightarrow> item \<Rightarrow> string" where
  "item_variant adminProductMap it =
     (let p = product_of it;
          capacity = js_or (f_capacity p) [];
          adminProduct = map_of adminProductMap (toLowerCase (candidate_name p));
          spec = (case adminProduct of None \<Rightarrow> None | Some ap \<Rightarrow> storage ap)
      in wholecell_variant spec capacity)"

definition wholecell_step ::
  "(string \<times> admin_product) list \<Rightarrow> item \<Rightarrow> options_map \<times> oid \<Rightarrow> options_map \<times> oid" where
  "wholecell_step adminProductMap it st =
     (if status it \<noteq> Some ''Available'' then st
      else
        (let (optionsMap, fresh) = st;
             c = js_or (f_color (product_of it)) ''Unknown'';
             v = item_variant adminProductMap it;
             k = optionKey c v;
             priceInDollars =
               round_div_100 (case total_price_paid it of None \<Rightarrow> 0 | Some n \<Rightarrow> n);
             (optionsMap1, fresh1) =
               (if map_of optionsMap k = None
                then (AList.update k \<lparr>color = c, variant = v, stock = 0,
                         price = priceInDollars, discount = priceInDollars,
                         uniqueNumbers = [], opt_id = fresh\<rparr> optionsMap,
                      fresh + 1)
                else (optionsMap, fresh))
         in case map_of optionsMap1 k of
              None \<Rightarrow> (optionsMap1, fresh1)
            | Some opt \<Rightarrow>
                (AList.update k (opt\<lparr>stock := stock opt + 1,
                   uniqueNumbers := uniqueNumbers opt @ [unit_identifier it]\<rparr>) optionsMap1,
                 fresh1)))"

text \<open>The names asked for in the catalog: those of the available items, empty ones dropped.\<close>

definition productNames_of :: "item list \<Rightarrow> string list" where
  "productNames_of items =
     filter (\<lambda>n. n \<noteq> [])
       (map (\<lambda>it. candidate_name (product_of it))
          (filter (\<lambda>it. status it = Some ''Available'') items))"

definition createSelectedOptionsForWholecell ::
  "item list \<Rightarrow> db \<Rightarrow> oid \<Rightarrow> error + (selected_option list \<times> oid)" where
  "createSelectedOptionsForWholecell items d fresh =
     (case admin_find_in d (productNames_of items) of
        Inl e \<Rightarrow> Inl e
      | Inr adminProducts \<Rightarrow>
          (let adminProductMap = build_adminProductMap adminProducts;
               (optionsMap, fresh') = fold (wholecell_step adminProductMap) items ([], fresh)
           in Inr (map snd optionsMap, fresh')))"

section \<open>Batch operations on the vendor-product collection\<close>

datatype vp_filter = ByKey oid oid oid | ById oid

datatype vp_set = SetData vendor_product_data | SetSelectedOptions "selected_option list"

text \<open>The operation kinds of \<^verbatim>\<open>bulkWrite\<close> on documents of this collection.\<close>

datatype bulk_op =
    InsertOne vendor_product_data
  | UpdateOne vp_filter vp_set
  | DeleteOne vp_filter
  | DeleteMany vp_filter

fun is_delete :: "bulk_op \<Rightarrow> bool" where
  "is_delete (DeleteOne _) = True"
| "is_delete (DeleteMany _) = True"
| "is_delete _ = False"


fun matches :: "vp_filter \<Rightarrow> vendor_product \<Rightarrow> bool" where
  "matches (ByKey v p c) r = (vendorId r = v \<and> product r = p \<and> condition r = c)"
| "matches (ById i) r = (vp_id r = i)"

text \<open>\<^verbatim>\<open>$set\<close>: the fields named are overwritten, the others kept.\<close>

fun apply_set :: "vp_set \<Rightarrow> vendor_product \<Rightarrow> vendor_product" where
  "apply_set (SetData data) r =
     r\<lparr>vendorId := vendorId data, product := product data, condition := condition data,
       selectedOptions := selectedOptions data,
       database := (case database data of None \<Rightarrow> database r | Some x \<Rightarrow> Some x)\<rparr>"
| "apply_set (SetSelectedOptions opts) r = r\<lparr>selectedOptions := opts\<rparr>"

fun update_first :: "('a \<Rightarrow> bool) \<Rightarrow> ('a \<Rightarrow> 'a) \<Rightarrow> 'a list \<Rightarrow> 'a list" where
  "update_first P f [] = []"
| "update_first P f (x # xs) = (if P x then f x # xs else x # update_first P f xs)"

fun remove_first :: "('a \<Rightarrow> bool) \<Rightarrow> 'a list \<Rightarrow> 'a list" where
  "remove_first P [] = []"
| "remove_first P (x # xs) = (if P x then xs else x # remove_first P xs)"

fun apply_op :: "bulk_op \<Rightarrow> vendor_product list \<times> oid \<Rightarrow> vendor_product list \<times> oid" where
  "apply_op (InsertOne data) (rs, fresh) =
     (rs @ [vendor_product_data.extend data (vendor_product.fields fresh)], fresh + 1)"
| "apply_op (UpdateOne f u) (rs, fresh) = (update_first (matches f) (apply_set u) rs, fresh)"
| "apply_op (DeleteOne f) (rs, fresh) = (remove_first (matches f) rs, fresh)"
| "apply_op (DeleteMany f) (rs, fresh) = (filter (\<lambda>r. \<not> matches f r) rs, fresh)"

text \<open>
  \<^verbatim>\<open>bulkWrite(bulkOps, { ordered: false })\<close>. The operations are applied in the order
  of the list, one of the orders the store may choose; a rejected call applies none.
\<close>

definition bulkWrite :: "bulk_op list \<Rightarrow> db \<times> oid \<Rightarrow> error + (db \<times> oid)" where
  "bulkWrite operations st =
     (let (d, fresh) = st
      in if rejects d VendorBulkWrite then Inl (StoreError VendorBulkWrite)
         else (let (rs, fresh') = fold apply_op operations (tep_vendor_products d, fresh)
               in Inr (d\<lparr>tep_vendor_products := rs\<rparr>, fresh')))"

definition vendor_findOne :: "db \<Rightarrow> oid \<Rightarrow> oid \<Rightarrow> oid \<Rightarrow> error + vendor_product option" where
  "vendor_findOne d v p c =
     (if rejects d (VendorFindOne v p c) then Inl (StoreError (VendorFindOne v p c))
      else Inr (find (matches (ByKey v p c)) (tep_vendor_products d)))"

definition vendor_find :: "db \<Rightarrow> oid \<Rightarrow> error + vendor_product list" where
  "vendor_find d v =
     (if rejects d (VendorFind v) then Inl (StoreError (VendorFind v))
      else Inr (filter (\<lambda>r. vendorId r = v) (tep_vendor_products d)))"

section \<open>The per-vendor pipelines\<close>

record vendor_api =
  api_vendorId :: oid
  api_database :: "string option"

text \<open>The JSON summary a pipeline returns; a key the adapter does not emit is \<open>None\<close>.\<close>

record summary =
  sum_vendorId :: oid
  sum_database :: "string option"
  totalFetched :: nat
  groupsProcessed :: "nat option"
  validProducts :: "nat option"
  skippedProducts :: "nat option"
  newVendorProducts :: nat
  updatedVendorProducts :: nat
  markedAsOutOfStock :: "nat option"
  totalStockProcessed :: "int option"
  totalOperations :: nat

text \<open>
  The local variables of a pipeline: the batch under construction, the counters, the
  supply of fresh identifiers, the store, and what \<^verbatim>\<open>console.error\<close> received in the
  \<^verbatim>\<open>catch\<close> of the group loop (group key and error).
\<close>

record sync_state =
  bulkOps :: "bulk_op list"
  n_new :: nat
  n_updated :: nat
  n_stock :: int
  fresh_id :: oid
  cur_db :: db
  console_error :: "(string \<times> error) list"

definition init_state :: "db \<Rightarrow> oid \<Rightarrow> sync_state" where
  "init_state d fresh = \<lparr>bulkOps = [], n_new = 0, n_updated = 0, n_stock = 0,
     fresh_id = fresh, cur_db = d, console_error = []\<rparr>"

definition all_out_of_stock :: "selected_option list \<Rightarrow> bool" where
  "all_out_of_stock opts = (opts = [] \<or> list_all (\<lambda>opt. stock opt = 0) opts)"

subsection \<open>Restricted adapter\<close>

text \<open>\<^verbatim>\<open>new ObjectId("682f3e63402c8b0c279cba1e")\<close>\<close>

definition fixedConditionId :: oid where
  "fixedConditionId = 0x682f3e63402c8b0c279cba1e"

text \<open>
  Step 1: the groups whose product is in the catalog, each with the product found, and
  the number of groups skipped. A rejected lookup is thrown: the loop has no
  \<^verbatim>\<open>try\<close>.
\<close>

fun filter_valid_groups ::
  "(string \<times> group_data) list \<Rightarrow> db
     \<Rightarrow> error + ((string \<times> group_data \<times> admin_product) list \<times> nat)" where
  "filter_valid_groups [] d = Inr ([], 0)"
| "filter_valid_groups ((k, g) # gs) d =
     (case findExistingProduct (g_product g) d of
        Inl e \<Rightarrow> Inl e
      | Inr existingProduct \<Rightarrow>
          (case filter_valid_groups gs d of
             Inl e \<Rightarrow> Inl e
           | Inr (validGroups, skipped) \<Rightarrow>
               (case existingProduct of
                  Some p \<Rightarrow> Inr ((k, g, p) # validGroups, skipped)
                | None \<Rightarrow> Inr (validGroups, Suc skipped))))"

text \<open>Step 2 and 3: the body of the loop over the valid groups, with its \<^verbatim>\<open>try\<close>.\<close>

definition wholecell_group ::
  "oid \<Rightarrow> string \<times> group_data \<times> admin_product \<Rightarrow> sync_state \<Rightarrow> sync_state" where
  "wholecell_group v kgp st =
     (let (groupKey, groupData, existingProduct) = kgp; d = cur_db st
      in case createSelectedOptionsForWholecell (g_items groupData) d (fresh_id st) of
           Inl e \<Rightarrow> st\<lparr>console_error := console_error st @ [(groupKey, e)]\<rparr>
         | Inr (newOptions, fresh') \<Rightarrow>
             (let st1 = st\<lparr>fresh_id := fresh'\<rparr>
              in if all_out_of_stock newOptions then st1
                 else
                   (case vendor_findOne d v (ap_id existingProduct) fixedConditionId of
                      Inl e \<Rightarrow> st1\<lparr>console_error := console_error st1 @ [(groupKey, e)]\<rparr>
                    | Inr existing \<Rightarrow>
                        (let vendorProductData =
                               \<lparr>vendorId = v, product = ap_id existingProduct,
                                condition = fixedConditionId,
                                selectedOptions = newOptions,
                                database = Some ''wholecell''\<rparr>;
                             st2 =
                               (case existing of
                                  Some ex \<Rightarrow>
                                    st1\<lparr>n_updated := n_updated st1 + 1,
                                      bulkOps := bulkOps st1 @
                                        [UpdateOne
                                           (ByKey v (ap_id existingProduct) fixedConditionId)
                                           (SetData (vendorProductData\<lparr>selectedOptions :=
                                              mergeSelectedOptions (selectedOptions ex)
                                                newOptions\<rparr>))]\<rparr>
                                | None \<Rightarrow>
                                    st1\<lparr>n_new := n_new st1 + 1,
                                      bulkOps := bulkOps st1 @ [InsertOne vendorProductData]\<rparr>)
                         in st2\<lparr>n_stock := n_stock st2 +
                                  sum_list (map stock newOptions)\<rparr>))))"

text \<open>
  The pipeline up to the batch: \<open>resp\<close> is what the vendor's endpoint answered (the
  item list, or a failure of the request).
\<close>

definition wholecell_plan ::
  "oid \<Rightarrow> db \<Rightarrow> oid \<Rightarrow> error + item list \<Rightarrow> error + (sync_state \<times> nat \<times> nat \<times> nat)" where
  "wholecell_plan v d fresh resp =
     (case resp of
        Inl e \<Rightarrow> Inl e
      | Inr vendorItems \<Rightarrow>
          (case filter_valid_groups (groupItemsByProductAndCondition vendorItems) d of
             Inl e \<Rightarrow> Inl e
           | Inr (validGroups, skipped) \<Rightarrow>
               Inr (fold (wholecell_group v) validGroups (init_state d fresh),
                    length vendorItems, length validGroups, skipped)))"

definition syncWholecellVendor ::
  "vendor_api \<Rightarrow> db \<Rightarrow> oid \<Rightarrow> error + item list \<Rightarrow> (error + summary) \<times> db \<times> oid" where
  "syncWholecellVendor vendorApi d fresh resp =
     (case wholecell_plan (api_vendorId vendorApi) d fresh resp of
        Inl e \<Rightarrow> (Inl e, d, fresh)
      | Inr (st, fetched, valid, skipped) \<Rightarrow>
          (case (if bulkOps st = [] then Inr (d, fresh_id st)
                 else bulkWrite (bulkOps st) (d, fresh_id st)) of
             Inl e \<Rightarrow> (Inl e, d, fresh_id st)
           | Inr (d', fresh') \<Rightarrow>
               (Inr \<lparr>sum_vendorId = api_vendorId vendorApi, sum_database = Some ''wholecell'',
                     totalFetched = fetched, groupsProcessed = None,
                     validProducts = Some valid, skippedProducts = Some skipped,
                     newVendorProducts = n_new st, updatedVendorProducts = n_updated st,
                     markedAsOutOfStock = None, totalStockProcessed = Some (n_stock st),
                     totalOperations = length (bulkOps st)\<rparr>,
                d', fresh')))"

subsection \<open>Generic adapter\<close>

text \<open>
  \<^verbatim>\<open>syncVendor\<close> reads \<^verbatim>\<open>condition._id\<close>, and the module declares no
  \<^verbatim>\<open>condition\<close>: the identifier resolves in the global scope. \<open>genv\<close> is the
  \<^verbatim>\<open>_id\<close> of the global \<^verbatim>\<open>condition\<close> when there is one, and \<open>None\<close> when there
  is none, where the read throws a \<^verbatim>\<open>ReferenceError\<close>.
\<close>

definition global_condition_id :: "oid option \<Rightarrow> error + oid" where
  "global_condition_id genv =
     (case genv of None \<Rightarrow> Inl (ReferenceError ''condition'') | Some c \<Rightarrow> Inr c)"

text \<open>The body of the first loop over the groups, with its \<^verbatim>\<open>try\<close>.\<close>

definition generic_group ::
  "oid \<Rightarrow> oid option \<Rightarrow> string \<times> group_data \<Rightarrow> sync_state \<Rightarrow> sync_state" where
  "generic_group v genv kg st =
     (let (groupKey, groupData) = kg
      in case findOrCreateProduct (g_product groupData) (cur_db st, fresh_id st) of
           Inl e \<Rightarrow> st\<lparr>console_error := console_error st @ [(groupKey, e)]\<rparr>
         | Inr (catalogProduct, d1, fresh1) \<Rightarrow>
             (let (newOptions, fresh2) = createSelectedOptions (g_items groupData) fresh1;
                  st1 = st\<lparr>cur_db := d1, fresh_id := fresh2\<rparr>
              in if all_out_of_stock newOptions then st1
                 else
                   (case global_condition_id genv of
                      Inl e \<Rightarrow> st1\<lparr>console_error := console_error st1 @ [(groupKey, e)]\<rparr>
                    | Inr c \<Rightarrow>
                        (case vendor_findOne d1 v (ap_id catalogProduct) c of
                           Inl e \<Rightarrow>
                             st1\<lparr>console_error := console_error st1 @ [(groupKey, e)]\<rparr>
                         | Inr existing \<Rightarrow>
                             (let vendorProductData =
                                    \<lparr>vendorId = v, product = ap_id catalogProduct, condition = c,
                                     selectedOptions = newOptions, database = None\<rparr>
                              in case existing of
                                   Some ex \<Rightarrow>
                                     st1\<lparr>n_updated := n_updated st1 + 1,
                                       bulkOps := bulkOps st1 @
                                         [UpdateOne (ByKey v (ap_id catalogProduct) c)
                                            (SetData vendorProductData)]\<rparr>
                                 | None \<Rightarrow>
                                     st1\<lparr>n_new := n_new st1 + 1,
                                       bulkOps := bulkOps st1 @
                                         [InsertOne vendorProductData]\<rparr>)))))"

text \<open>
  The second loop: the (product, condition) combinations of the feed. It has no
  \<^verbatim>\<open>try\<close>; an error leaves it with the store as it is at that point. The key
  \<^verbatim>\<open>`${product._id}_${condition._id}`\<close> of two object identifiers is the pair.
\<close>

fun current_combinations ::
  "oid option \<Rightarrow> (string \<times> group_data) list \<Rightarrow> db \<times> oid
     \<Rightarrow> (error \<times> db \<times> oid) + ((oid \<times> oid) list \<times> db \<times> oid)" where
  "current_combinations genv [] st = Inr ([], st)"
| "current_combinations genv ((k, g) # gs) st =
     (case findOrCreateProduct (g_product g) st of
        Inl e \<Rightarrow> Inl (e, st)
      | Inr (catalogProduct, st1) \<Rightarrow>
          (case global_condition_id genv of
             Inl e \<Rightarrow> Inl (e, st1)
           | Inr c \<Rightarrow>
               (case current_combinations genv gs st1 of
                  Inl x \<Rightarrow> Inl x
                | Inr (combinations, st2) \<Rightarrow> Inr ((ap_id catalogProduct, c) # combinations, st2))))"

definition zero_out :: "selected_option list \<Rightarrow> selected_option list" where
  "zero_out opts = map (\<lambda>opt. opt\<lparr>stock := 0, uniqueNumbers := []\<rparr>) opts"

definition mark_out_of_stock :: "(oid \<times> oid) list \<Rightarrow> vendor_product list \<Rightarrow> bulk_op list" where
  "mark_out_of_stock currentCombinations existingVendorProducts =
     map (\<lambda>ex. UpdateOne (ById (vp_id ex)) (SetSelectedOptions (zero_out (selectedOptions ex))))
       (filter (\<lambda>ex. (product ex, condition ex) \<notin> set currentCombinations)
          existingVendorProducts)"

definition generic_plan ::
  "oid \<Rightarrow> oid option \<Rightarrow> db \<Rightarrow> oid \<Rightarrow> error + item list
     \<Rightarrow> (error \<times> db \<times> oid) + (sync_state \<times> nat \<times> nat \<times> nat)" where
  "generic_plan v genv d fresh resp =
     (case resp of
        Inl e \<Rightarrow> Inl (e, d, fresh)
      | Inr vendorItems \<Rightarrow>
          (let groupedItems = groupItemsByProductAndCondition vendorItems;
               st = fold (generic_group v genv) groupedItems (init_state d fresh)
           in case vendor_find (cur_db st) v of
                Inl e \<Rightarrow> Inl (e, cur_db st, fresh_id st)
              | Inr existingVendorProducts \<Rightarrow>
                  (case current_combinations genv groupedItems (cur_db st, fresh_id st) of
                     Inl x \<Rightarrow> Inl x
                   | Inr (currentCombinations, d2, fresh2) \<Rightarrow>
                       (let zs = mark_out_of_stock currentCombinations existingVendorProducts
                        in Inr (st\<lparr>bulkOps := bulkOps st @ zs, cur_db := d2,
                                  fresh_id := fresh2\<rparr>,
                                length vendorItems, length groupedItems, length zs)))))"

definition syncVendor ::
  "vendor_api \<Rightarrow> oid option \<Rightarrow> db \<Rightarrow> oid \<Rightarrow> error + item list
     \<Rightarrow> (error + summary) \<times> db \<times> oid" where
  "syncVendor vendorApi genv d fresh resp =
     (case generic_plan (api_vendorId vendorApi) genv d fresh resp of
        Inl (e, d1, fresh1) \<Rightarrow> (Inl e, d1, fresh1)
      | Inr (st, fetched, groups, marked) \<Rightarrow>
          (case (if bulkOps st = [] then Inr (cur_db st, fresh_id st)
                 else bulkWrite (bulkOps st) (cur_db st, fresh_id st)) of
             Inl e \<Rightarrow> (Inl e, cur_db st, fresh_id st)
           | Inr (d', fresh') \<Rightarrow>
               (Inr \<lparr>sum_vendorId = api_vendorId vendorApi, sum_database = None,
                     totalFetched = fetched, groupsProcessed = Some groups,
                     validProducts = None, skippedProducts = None,
                     newVendorProducts = n_new st, updatedVendorProducts = n_updated st,
                     markedAsOutOfStock = Some marked, totalStockProcessed = None,
                     totalOperations = length (bulkOps st)\<rparr>,
                d', fresh')))"

section \<open>The routes\<close>

text \<open>
  A document of the collection of vendor configurations, as far as the routes read it.
  The store has no schema: \<^verbatim>\<open>vendorId\<close> and \<^verbatim>\<open>database\<close> may be missing.
\<close>

record vendor_doc =
  doc_vendorId :: "oid option"
  doc_database :: "string option"

text \<open>
  An entry of the summary is the value a vendor's promise resolved to, or the vendor's
  identifier with the error (for \<^verbatim>\<open>r.reason?.message || "Failed"\<close>).
\<close>

datatype summary_entry =
    Fulfilled summary
  | ErrorEntry oid "string option" error
  | NoSyncFunction oid "string option"

datatype response = Json "summary_entry list" | Status500

text \<open>
  A document without \<^verbatim>\<open>vendorId\<close>: its pipeline ends in a \<^verbatim>\<open>TypeError\<close> at
  \<^verbatim>\<open>vendorApi.vendorId.toString()\<close>, when it has not thrown before, and for the rejected
  promise the route evaluates \<^verbatim>\<open>vendorApis[i].vendorId.toString()\<close> inside its own
  \<^verbatim>\<open>try\<close>: the route answers 500 whatever the other pipelines returned. The pipelines
  therefore take the vendors that have an identifier; \<open>with_api\<close> is \<open>None\<close> when a
  document has none.
\<close>

definition api_of :: "vendor_doc \<Rightarrow> vendor_api option" where
  "api_of doc =
     (case doc_vendorId doc of
        None \<Rightarrow> None
      | Some v \<Rightarrow> Some \<lparr>api_vendorId = v, api_database = doc_database doc\<rparr>)"

definition with_api :: "(vendor_doc \<times> 'b) list \<Rightarrow> (vendor_api \<times> 'b) list option" where
  "with_api vendorApis =
     those (map (\<lambda>(doc, resp). map_option (\<lambda>api. (api, resp)) (api_of doc)) vendorApis)"

text \<open>
  \<^verbatim>\<open>Promise.allSettled(vendorApis.map(...))\<close> waits for every pipeline and keeps, per
  vendor, the value it returned or the reason it threw. The pipelines share the store;
  they are taken here in the schedule in which each one runs to its end before the next
  one starts, in the order of the list.
\<close>

fun allSettled ::
  "('a \<Rightarrow> db \<times> oid \<Rightarrow> 'r \<times> db \<times> oid) \<Rightarrow> 'a list \<Rightarrow> db \<times> oid \<Rightarrow> 'r list \<times> db \<times> oid" where
  "allSettled run [] st = ([], st)"
| "allSettled run (x # xs) st =
     (case run x st of
        (r, st1) \<Rightarrow> (case allSettled run xs st1 of (rs, st2) \<Rightarrow> (r # rs, st2)))"

text \<open>
  The generic route. \<open>loaded\<close> is the vendor list read from the store, each vendor with
  what its endpoint answers in this run.
\<close>

definition generic_job ::
  "oid option \<Rightarrow> vendor_api \<times> (error + item list) \<Rightarrow> db \<times> oid
     \<Rightarrow> (error + summary_entry) \<times> db \<times> oid" where
  "generic_job genv job st =
     (case job of (api, resp) \<Rightarrow>
        (case st of (d, fresh) \<Rightarrow>
           (case syncVendor api genv d fresh resp of
              (Inr v, st1) \<Rightarrow> (Inr (Fulfilled v), st1)
            | (Inl e, st1) \<Rightarrow> (Inl e, st1))))"

definition generic_slot ::
  "vendor_api \<times> (error + item list) \<Rightarrow> error + summary_entry \<Rightarrow> summary_entry" where
  "generic_slot job r =
     (case r of Inr v \<Rightarrow> v | Inl e \<Rightarrow> ErrorEntry (api_vendorId (fst job)) None e)"

definition sync_route ::
  "oid option \<Rightarrow> error + (vendor_doc \<times> (error + item list)) list \<Rightarrow> db \<times> oid \<Rightarrow> response" where
  "sync_route genv loaded st =
     (case loaded of
        Inl e \<Rightarrow> Status500
      | Inr vendorApis \<Rightarrow>
          (case with_api vendorApis of
             None \<Rightarrow> Status500
           | Some jobs \<Rightarrow>
               Json (map2 generic_slot jobs (fst (allSettled (generic_job genv) jobs st)))))"

text \<open>
  The main route of the restricted module: a vendor without a \<^verbatim>\<open>database\<close> field gets
  \<^verbatim>\<open>"wholecell"\<close>, written back to its document (\<open>write_rejects\<close> tells for which
  documents that write is rejected: \<^verbatim>\<open>Promise.all\<close> then rejects, and the route answers
  500); a vendor of another database gets a resolved entry saying that no sync function
  exists.
\<close>

definition default_database :: "vendor_doc \<Rightarrow> vendor_doc" where
  "default_database doc =
     (if truthy (doc_database doc) then doc else doc\<lparr>doc_database := Some ''wholecell''\<rparr>)"

definition wholecell_job ::
  "vendor_api \<times> (error + item list) \<Rightarrow> db \<times> oid \<Rightarrow> (error + summary_entry) \<times> db \<times> oid" where
  "wholecell_job job st =
     (case job of (api, resp) \<Rightarrow>
        if api_database api = Some ''wholecell''
        then (case st of (d, fresh) \<Rightarrow>
                (case syncWholecellVendor api d fresh resp of
                   (Inr v, st1) \<Rightarrow> (Inr (Fulfilled v), st1)
                 | (Inl e, st1) \<Rightarrow> (Inl e, st1)))
        else (Inr (NoSyncFunction (api_vendorId api) (api_database api)), st))"

definition wholecell_slot ::
  "vendor_api \<times> (error + item list) \<Rightarrow> error + summary_entry \<Rightarrow> summary_entry" where
  "wholecell_slot job r =
     (case r of
        Inr v \<Rightarrow> v
      | Inl e \<Rightarrow> ErrorEntry (api_vendorId (fst job))
                  (Some (js_or (api_database (fst job)) ''default'')) e)"

definition wholecell_route ::
  "error + (vendor_doc \<times> (error + item list)) list \<Rightarrow> (vendor_doc \<Rightarrow> bool) \<Rightarrow> db \<times> oid
     \<Rightarrow> response" where
  "wholecell_route loaded write_rejects st =
     (case loaded of
        Inl e \<Rightarrow> Status500
      | Inr vendorApis \<Rightarrow>
          if \<exists>(doc, resp) \<in> set vendorApis. \<not> truthy (doc_database doc) \<and> write_rejects doc
          then Status500
          else
            (case with_api (map (\<lambda>(doc, resp). (default_database doc, resp)) vendorApis) of
               None \<Rightarrow> Status500
             | Some updatedVendorApis \<Rightarrow>
                 Json (map2 wholecell_slot updatedVendorApis
                         (fst (allSettled wholecell_job updatedVendorApis st)))))"

section \<open>Notions used in the statements\<close>

text \<open>An option whose stock count is the number of its unit identifiers.\<close>

definition stock_matches :: "selected_option \<Rightarrow> bool" where
  "stock_matches opt = (stock opt = int (length (uniqueNumbers opt)))"

text \<open>
  The merge policy in the words of the specification: an existing option and a new one
  that have the same option key merge into one, whose stock is the sum, whose unit
  identifiers are the existing ones followed by the new ones, whose price is the minimum
  and whose discount is the merged price.
\<close>

definition merge_pair :: "selected_option \<Rightarrow> selected_option \<Rightarrow> selected_option" where
  "merge_pair e n =
     e\<lparr>stock := stock e + stock n, uniqueNumbers := uniqueNumbers e @ uniqueNumbers n,
       price := min (price e) (price n), discount := min (price e) (price n)\<rparr>"

text \<open>The option key of the specification: the pair (color, variant).\<close>

definition option_pair :: "selected_option \<Rightarrow> string \<times> string" where
  "option_pair opt = (color opt, variant opt)"

text \<open>
  The merged list in the words of the specification, per option key (color, variant): an
  existing option merges with the new option of the same key, an option present on one
  side only is kept as it is, and the new ones follow the existing ones.
\<close>

definition merge_spec ::
  "selected_option list \<Rightarrow> selected_option list \<Rightarrow> selected_option list" where
  "merge_spec existingOptions newOptions =
     map (\<lambda>e. case find (\<lambda>n. option_pair n = option_pair e) newOptions of
                 None \<Rightarrow> e | Some n \<Rightarrow> merge_pair e n) existingOptions
     @ filter (\<lambda>n. option_pair n \<notin> option_pair ` set existingOptions) newOptions"



text \<open>Auxiliary notions of the proofs about the options map.\<close>

definition keyed :: "options_map \<Rightarrow> bool" where
  "keyed m = (distinct (map fst m) \<and> (\<forall>(k, opt) \<in> set m. k = key_of opt))"

definition options_all :: "(selected_option \<Rightarrow> bool) \<Rightarrow> options_map \<Rightarrow> bool" where
  "options_all P m = (\<forall>x \<in> set m. P (snd x))"

definition by_key :: "selected_option list \<Rightarrow> options_map" where
  "by_key opts = map (\<lambda>opt. (key_of opt, opt)) opts"


subsection \<open>Example data\<close>

text \<open>
  The feed of the scenario: items of manufacturer Acme, model X1, colour Black, capacity
  128, status Available, price paid 10000 cents.
\<close>

definition acme_item :: "nat \<Rightarrow> item" where
  "acme_item n =
     \<lparr>item_id = Some n, status = Some ''Available'', esn = None, hex_id = None,
      total_price_paid = Some 10000,
      product_variation = Some \<lparr>pv_product = Some \<lparr>manufacturer = Some ''Acme'',
         model = Some ''X1'', f_color = Some ''Black'', f_capacity = Some ''128'',
         f_variant = None\<rparr>, grade = None, sku = None\<rparr>\<rparr>"

definition acme_feed :: "item list" where
  "acme_feed = [acme_item 1, acme_item 2]"

definition catalog_entry :: "oid \<Rightarrow> string \<Rightarrow> string option \<Rightarrow> admin_product" where
  "catalog_entry i n st =
     \<lparr>ap_id = i, name = n, ap_manufacturer = ''Acme'', ap_model = ''X1'', category = ''Acme'',
      imagesByColor = [], storage = st\<rparr>"

text \<open>A store on which no call rejects.\<close>

definition store :: "admin_product list \<Rightarrow> vendor_product list \<Rightarrow> db" where
  "store aps vps =
     \<lparr>tep_admin_products = aps, tep_vendor_products = vps, rejects = (\<lambda>_. False),
      regex_ext = (\<lambda>_ _. False)\<rparr>"

definition black_128 :: "int \<Rightarrow> string list \<Rightarrow> int \<Rightarrow> selected_option" where
  "black_128 n ids p =
     \<lparr>color = ''Black'', variant = ''128GB 4GB RAM'', stock = n, price = p, discount = p,
      uniqueNumbers = ids, opt_id = 0\<rparr>"

definition acme_record :: "selected_option list \<Rightarrow> vendor_product" where
  "acme_record opts =
     \<lparr>vendorId = 1, product = 7, condition = fixedConditionId, selectedOptions = opts,
      database = Some ''wholecell'', vp_id = 50\<rparr>"


definition acme_store :: db where
  "acme_store = store [catalog_entry 7 ''Acme X1'' None]
     [acme_record [black_128 3 [''a'', ''b'', ''c''] 90]]"

definition plain_name :: "string \<Rightarrow> bool" where
  "plain_name n = list_all (\<lambda>c. \<not> regex_special c) n"

definition name_eq_i :: "string \<Rightarrow> admin_product \<Rightarrow> bool" where
  "name_eq_i nm p = (toLowerCase (name p) = toLowerCase nm)"

definition name_contains_i :: "string \<Rightarrow> admin_product \<Rightarrow> bool" where
  "name_contains_i nm p = sublist (toLowerCase nm) (toLowerCase (name p))"

definition new_product :: "feed_product \<Rightarrow> oid \<Rightarrow> admin_product" where
  "new_product pd i =
     \<lparr>ap_id = i, name = candidate_name pd,
      ap_manufacturer = js_or (manufacturer pd) ''Unknown'',
      ap_model = js_or (model pd) [],
      category = js_or (manufacturer pd) ''Unknown'',
      imagesByColor = [], storage = None\<rparr>"

text \<open>An option entered under a key when absent, then counted when \<open>bump\<close> holds.\<close>

definition upsert_bump ::
  "string \<Rightarrow> selected_option \<Rightarrow> bool \<Rightarrow> string \<Rightarrow> options_map \<Rightarrow> options_map" where
  "upsert_bump k new bump uid m =
     (let m1 = (if map_of m k = None then AList.update k new m else m)
      in case map_of m1 k of
           None \<Rightarrow> m1
         | Some opt \<Rightarrow>
             if bump
             then AList.update k (opt\<lparr>stock := stock opt + 1,
                    uniqueNumbers := uniqueNumbers opt @ [uid]\<rparr>) m1
             else m1)"

definition generic_new :: "item \<Rightarrow> oid \<Rightarrow> selected_option" where
  "generic_new it fresh =
     \<lparr>color = js_or (f_color (product_of it)) ''Unknown'',
      variant = generic_variant (product_of it), stock = 0,
      price = (case total_price_paid it of None \<Rightarrow> 0 | Some n \<Rightarrow> n),
      discount = 0, uniqueNumbers = [], opt_id = fresh\<rparr>"

definition wholecell_new :: "(string \<times> admin_product) list \<Rightarrow> item \<Rightarrow> oid \<Rightarrow> selected_option" where
  "wholecell_new apm it fresh =
     \<lparr>color = js_or (f_color (product_of it)) ''Unknown'',
      variant = item_variant apm it, stock = 0,
      price = round_div_100 (case total_price_paid it of None \<Rightarrow> 0 | Some n \<Rightarrow> n),
      discount = round_div_100 (case total_price_paid it of None \<Rightarrow> 0 | Some n \<Rightarrow> n),
      uniqueNumbers = [], opt_id = fresh\<rparr>"

definition wholecell_key :: "(string \<times> admin_product) list \<Rightarrow> item \<Rightarrow> string" where
  "wholecell_key apm it =
     optionKey (js_or (f_color (product_of it)) ''Unknown'') (item_variant apm it)"

definition generic_key :: "item \<Rightarrow> string" where
  "generic_key it =
     optionKey (js_or (f_color (product_of it)) ''Unknown'') (generic_variant (product_of it))"

text \<open>The catalog products an aggregation of the restricted adapter works with.\<close>

definition feed_adminProductMap :: "db \<Rightarrow> item list \<Rightarrow> (string \<times> admin_product) list" where
  "feed_adminProductMap d items =
     (case admin_find_in d (productNames_of items) of
        Inl e \<Rightarrow> [] | Inr adminProducts \<Rightarrow> build_adminProductMap adminProducts)"

text \<open>The storage specification looked up for an item.\<close>

definition item_spec :: "(string \<times> admin_product) list \<Rightarrow> item \<Rightarrow> string option" where
  "item_spec apm it =
     (case map_of apm (toLowerCase (candidate_name (product_of it))) of
        None \<Rightarrow> None | Some ap \<Rightarrow> storage ap)"

text \<open>The variant of the restricted adapter, as a chain of cases.\<close>

definition restricted_variant_chain :: "string option \<Rightarrow> string \<Rightarrow> string" where
  "restricted_variant_chain spec capacity =
     (if capacity = [] then ''Unknown''
      else if \<not> truthy spec then capacity @ ''GB 4GB RAM''
      else
        (case find (\<lambda>t. sublist (capacity @ ''GB'') t) (split_comma_space (the spec)) of
           Some t \<Rightarrow> t
         | None \<Rightarrow>
             (case find (\<lambda>t. sublist capacity t) (split_comma_space (the spec)) of
                Some t \<Rightarrow> t
              | None \<Rightarrow> ''Unknown'')))"

text \<open>The variant of the generic adapter, as a chain of cases.\<close>

definition generic_variant_chain :: "string option \<Rightarrow> string option \<Rightarrow> string" where
  "generic_variant_chain label capacity =
     (if truthy label then the label
      else if truthy capacity then the capacity @ ''GB''
      else ''Standard'')"

definition from_restricted_item ::
  "(string \<times> admin_product) list \<Rightarrow> item list \<Rightarrow> selected_option \<Rightarrow> bool" where
  "from_restricted_item apm items opt =
     (\<exists>it \<in> set items. status it = Some ''Available'' \<and>
        color opt = js_or (f_color (product_of it)) ''Unknown'' \<and>
        variant opt = item_variant apm it)"

definition from_generic_item :: "item list \<Rightarrow> selected_option \<Rightarrow> bool" where
  "from_generic_item items opt =
     (\<exists>it \<in> set items.
        color opt = js_or (f_color (product_of it)) ''Unknown'' \<and>
        variant opt = generic_variant (product_of it))"

text \<open>The priority order as the claim words it, for one adapter and every item.\<close>

definition claimed_variant :: "string option \<Rightarrow> string \<Rightarrow> string option \<Rightarrow> string" where
  "claimed_variant spec capacity label =
     (if capacity \<noteq> [] \<and> truthy spec then
        (case find (\<lambda>t. sublist (capacity @ ''GB'') t) (split_comma_space (the spec)) of
           Some t \<Rightarrow> t
         | None \<Rightarrow>
             (case find (\<lambda>t. sublist capacity t) (split_comma_space (the spec)) of
                Some t \<Rightarrow> t
              | None \<Rightarrow> capacity @ ''GB 4GB RAM''))
      else if capacity \<noteq> [] then capacity @ ''GB 4GB RAM''
      else if truthy label then the label
      else ''Standard'')"

text \<open>An available item without capacity, with the vendor's variant label "Pro".\<close>

definition pro_item :: item where
  "pro_item =
     \<lparr>item_id = Some 3, status = Some ''Available'', esn = None, hex_id = None,
      total_price_paid = Some 10000,
      product_variation = Some \<lparr>pv_product = Some \<lparr>manufacturer = Some ''Acme'',
         model = Some ''X1'', f_color = Some ''Black'', f_capacity = None,
         f_variant = Some ''Pro''\<rparr>, grade = None, sku = None\<rparr>\<rparr>"



text \<open>
  The groups of a feed that the restricted adapter matches to a catalog product, each
  with the product found, and the groups it cannot match.
\<close>

fun matched_groups ::
  "db \<Rightarrow> (string \<times> group_data) list \<Rightarrow> (string \<times> group_data \<times> admin_product) list" where
  "matched_groups d [] = []"
| "matched_groups d ((k, g) # gs) =
     (case findExistingProduct (g_product g) d of
        Inr (Some p) \<Rightarrow> (k, g, p) # matched_groups d gs
      | _ \<Rightarrow> matched_groups d gs)"

definition unmatched_groups :: "db \<Rightarrow> (string \<times> group_data) list \<Rightarrow> (string \<times> group_data) list" where
  "unmatched_groups d gs = filter (\<lambda>(k, g). findExistingProduct (g_product g) d = Inr None) gs"

text \<open>No catalog lookup of the resolution step rejects.\<close>

definition lookups_succeed :: "db \<Rightarrow> (string \<times> group_data) list \<Rightarrow> bool" where
  "lookups_succeed d gs = (\<forall>(k, g) \<in> set gs. \<not> isl (findExistingProduct (g_product g) d))"

text \<open>An insert or an update by key of the record of a vendor, a product and a condition.\<close>

fun writes_record :: "oid \<Rightarrow> oid \<Rightarrow> oid \<Rightarrow> bulk_op \<Rightarrow> bool" where
  "writes_record v p c (InsertOne data) =
     (vendorId data = v \<and> product data = p \<and> condition data = c)"
| "writes_record v p c (UpdateOne (ByKey v' p' c') (SetData data)) =
     (v' = v \<and> p' = p \<and> c' = c \<and> vendorId data = v \<and> product data = p \<and> condition data = c)"
| "writes_record v p c _ = False"

text \<open>An available item of a product the example catalogs do not hold.\<close>

definition zeta_item :: item where
  "zeta_item =
     \<lparr>item_id = Some 9, status = Some ''Available'', esn = Some ''E9'', hex_id = None,
      total_price_paid = Some 5000,
      product_variation = Some \<lparr>pv_product = Some \<lparr>manufacturer = Some ''Zeta'',
         model = Some ''Z9'', f_color = Some ''Red'', f_capacity = Some ''64'',
         f_variant = None\<rparr>, grade = Some ''A'', sku = None\<rparr>\<rparr>"

definition mixed_feed :: "item list" where
  "mixed_feed = [zeta_item, acme_item 2, acme_item 3]"

definition acme_catalog :: db where
  "acme_catalog = store [catalog_entry 7 ''Acme X1'' None] []"

text \<open>The zero-out of a persisted record: addressed by its identifier, it replaces the options.\<close>

definition zero_out_op :: "vendor_product \<Rightarrow> bulk_op" where
  "zero_out_op r = UpdateOne (ById (vp_id r)) (SetSelectedOptions (zero_out (selectedOptions r)))"

text \<open>
  The (product, condition) combinations that a pass of the generic adapter computes from
  the feed, in its second loop.
\<close>

definition feed_combinations ::
  "oid \<Rightarrow> oid option \<Rightarrow> db \<Rightarrow> oid \<Rightarrow> item list \<Rightarrow> (oid \<times> oid) list" where
  "feed_combinations v genv d fresh vendorItems =
     (let groupedItems = groupItemsByProductAndCondition vendorItems;
          st = fold (generic_group v genv) groupedItems (init_state d fresh)
      in case current_combinations genv groupedItems (cur_db st, fresh_id st) of
           Inl x \<Rightarrow> []
         | Inr (currentCombinations, st2) \<Rightarrow> currentCombinations)"

text \<open>What an option is apart from its stock and its unit identifiers.\<close>

definition option_identity :: "selected_option \<Rightarrow> string \<times> string \<times> int \<times> int \<times> oid" where
  "option_identity opt = (color opt, variant opt, price opt, discount opt, opt_id opt)"

definition other_record :: vendor_product where
  "other_record =
     \<lparr>vendorId = 1, product = 8, condition = fixedConditionId,
      selectedOptions = [black_128 3 [''a'', ''b'', ''c''] 90],
      database = Some ''wholecell'', vp_id = 51\<rparr>"

text \<open>The batch of a plan; empty when the plan threw.\<close>

definition plan_ops :: "'e + (sync_state \<times> 'a) \<Rightarrow> bulk_op list" where
  "plan_ops r = (case r of Inl e \<Rightarrow> [] | Inr (st, x) \<Rightarrow> bulkOps st)"

text \<open>A catalog with Acme X1 and a persisted record of vendor 1 for another product.\<close>

definition other_store :: db where
  "other_store = store [catalog_entry 7 ''Acme X1'' None] [other_record]"

text \<open>
  The Acme catalog on a store that rejects the exact-match lookup of "Zeta Z9" (the
  restricted adapter's), and one that rejects the lookup with the raw name (the generic
  adapter's).
\<close>

definition flaky_catalog :: db where
  "flaky_catalog = acme_catalog\<lparr>rejects := (\<lambda>c. c = AdminFindOne ''^Zeta Z9$'')\<rparr>"

definition flaky_generic_catalog :: db where
  "flaky_generic_catalog = acme_catalog\<lparr>rejects := (\<lambda>c. c = AdminFindOne ''Zeta Z9'')\<rparr>"

definition vendor_one :: vendor_api where
  "vendor_one = \<lparr>api_vendorId = 1, api_database = Some ''wholecell''\<rparr>"

text \<open>The options an operation writes.\<close>

fun payload :: "bulk_op \<Rightarrow> selected_option list" where
  "payload (InsertOne data) = selectedOptions data"
| "payload (UpdateOne f (SetData data)) = selectedOptions data"
| "payload (UpdateOne f (SetSelectedOptions opts)) = opts"
| "payload _ = []"

text \<open>The first persisted record of a vendor, a product and a condition.\<close>

definition first_record :: "oid \<Rightarrow> oid \<Rightarrow> oid \<Rightarrow> vendor_product list \<Rightarrow> vendor_product option" where
  "first_record v p c rs = find (matches (ByKey v p c)) rs"






text \<open>An option without its identifier.\<close>

definition erase_id :: "selected_option \<Rightarrow> selected_option" where
  "erase_id opt = opt\<lparr>opt_id := 0\<rparr>"



text \<open>
  A collection of persisted records in which every option's stock count is the number of
  its unit identifiers.
\<close>

definition records_counted :: "vendor_product list \<Rightarrow> bool" where
  "records_counted rs = list_all (\<lambda>r. list_all stock_matches (selectedOptions r)) rs"

text \<open>
  An available Acme X1 item of colour "Space_Gray", and a persisted record of the product
  whose one option has the colour "Space" and the variant "Gray_128GB 4GB RAM".
\<close>

definition gray_item :: item where
  "gray_item =
     \<lparr>item_id = Some 4, status = Some ''Available'', esn = None, hex_id = None,
      total_price_paid = Some 10000,
      product_variation = Some \<lparr>pv_product = Some \<lparr>manufacturer = Some ''Acme'',
         model = Some ''X1'', f_color = Some ''Space_Gray'', f_capacity = Some ''128'',
         f_variant = None\<rparr>, grade = None, sku = None\<rparr>\<rparr>"

definition gray_group :: group_data where
  "gray_group = \<lparr>g_product = product_of gray_item, g_variation = variation_of gray_item,
     g_condition = ''Unknown'', g_items = [gray_item]\<rparr>"

definition gray_option :: selected_option where
  "gray_option =
     \<lparr>color = ''Space'', variant = ''Gray_128GB 4GB RAM'', stock = 3, price = 90,
      discount = 90, uniqueNumbers = [''a'', ''b'', ''c''], opt_id = 0\<rparr>"

definition gray_store :: db where
  "gray_store = store [catalog_entry 7 ''Acme X1'' None] [acme_record [gray_option]]"

text \<open>An item of Acme X1 that is sold.\<close>

definition sold_item :: item where
  "sold_item = (acme_item 1)\<lparr>status := Some ''Sold''\<rparr>"

text \<open>The document of a vendor that has an identifier, and the list of the route.\<close>

definition doc_of :: "vendor_api \<Rightarrow> vendor_doc" where
  "doc_of api = \<lparr>doc_vendorId = Some (api_vendorId api), doc_database = api_database api\<rparr>"








text \<open>
  Vendor 1, whose fetch fails, and vendor 2, whose fetch returns the Acme feed; a document
  without \<^verbatim>\<open>vendorId\<close>; a document of vendor 1 without \<^verbatim>\<open>database\<close>; a store that
  accepts every write to the vendor documents, and one that rejects them.
\<close>

definition vendor_two :: vendor_api where
  "vendor_two = \<lparr>api_vendorId = 2, api_database = Some ''wholecell''\<rparr>"


definition nameless_doc :: vendor_doc where
  "nameless_doc = \<lparr>doc_vendorId = None, doc_database = Some ''wholecell''\<rparr>"

definition bare_doc :: vendor_doc where
  "bare_doc = \<lparr>doc_vendorId = Some 1, doc_database = None\<rparr>"

definition writes_stored :: "vendor_doc \<Rightarrow> bool" where
  "writes_stored doc = False"

definition writes_rejected :: "vendor_doc \<Rightarrow> bool" where
  "writes_rejected doc = True"

definition acme_summary :: summary where
  "acme_summary =
     \<lparr>sum_vendorId = 2, sum_database = Some ''wholecell'', totalFetched = 2,
      groupsProcessed = None, validProducts = Some 1, skippedProducts = Some 0,
      newVendorProducts = 1, updatedVendorProducts = 0, markedAsOutOfStock = None,
      totalStockProcessed = Some 2, totalOperations = 1\<rparr>"

definition empty_summary :: summary where
  "empty_summary =
     \<lparr>sum_vendorId = 2, sum_database = None, totalFetched = 0,
      groupsProcessed = Some 0, validProducts = None, skippedProducts = None,
      newVendorProducts = 0, updatedVendorProducts = 0, markedAsOutOfStock = Some 0,
      totalStockProcessed = None, totalOperations = 0\<rparr>"

section \<open>Properties\<close>

subsection \<open>The options map\<close>

lemma set_update_subset: "set (AList.update k v m) \<subseteq> insert (k, v) (set m)"
  by (induction m) auto

lemma keyed_update: "keyed m \<Longrightarrow> k = key_of v \<Longrightarrow> keyed (AList.update k v m)"
  unfolding keyed_def using set_update_subset[of k v m] by (auto simp: distinct_update)

lemma keyed_distinct: "keyed m \<Longrightarrow> distinct (map key_of (map snd m))"
proof -
  assume k: "keyed m"
  then have "map key_of (map snd m) = map fst m"
    by (auto simp: keyed_def)
  moreover have "distinct (map fst m)"
    using k by (simp add: keyed_def)
  ultimately show ?thesis by (simp only:)
qed

lemma all_update:
  "options_all P m \<Longrightarrow> P v \<Longrightarrow> options_all P (AList.update k' v m)"
  using set_update_subset[of k' v m] by (auto simp: options_all_def)

lemma map_of_keyed: "keyed m \<Longrightarrow> map_of m k = Some opt \<Longrightarrow> key_of opt = k"
  by (auto simp: keyed_def dest!: map_of_SomeD)

lemma map_of_all: "options_all P m \<Longrightarrow> map_of m k = Some opt \<Longrightarrow> P opt"
  by (auto simp: options_all_def dest!: map_of_SomeD)

lemma key_of_bump [simp]:
  "key_of (opt\<lparr>stock := s, uniqueNumbers := u\<rparr>) = key_of opt"
  by (simp add: key_of_def)

lemma generic_step_inv:
  assumes "createSelectedOptions_step it (m, f) = (m', f')"
    and "keyed m" and "options_all stock_matches m"
  shows "keyed m' \<and> options_all stock_matches m'"
proof -
  define k where "k = optionKey (js_or (f_color (product_of it)) ''Unknown'') (generic_variant (product_of it))"
  define new where "new = \<lparr>color = js_or (f_color (product_of it)) ''Unknown'',
       variant = generic_variant (product_of it), stock = 0,
       price = (case total_price_paid it of None \<Rightarrow> 0 | Some n \<Rightarrow> n),
       discount = 0, uniqueNumbers = [], opt_id = f\<rparr>"
  define m1 where "m1 = (if map_of m k = None then AList.update k new m else m)"
  have knew: "key_of new = k" by (simp add: new_def k_def key_of_def)
  have snew: "stock_matches new" by (simp add: new_def stock_matches_def)
  have k1: "keyed m1" using assms(2) knew by (simp add: m1_def keyed_update)
  have s1: "options_all stock_matches m1"
    using assms(3) snew by (simp add: m1_def all_update)
  have m': "m' = (case map_of m1 k of None \<Rightarrow> m1 | Some opt \<Rightarrow>
      if status it \<noteq> Some ''Sold'' then AList.update k (opt\<lparr>stock := stock opt + 1,
         uniqueNumbers := uniqueNumbers opt @ [unit_identifier it]\<rparr>) m1 else m1)"
    using assms(1)
    by (auto simp: createSelectedOptions_step_def Let_def m1_def k_def new_def
        split: option.splits if_splits)
  show ?thesis
  proof (cases "map_of m1 k")
    case None
    then show ?thesis using k1 s1 m' by simp
  next
    case (Some opt)
    have ko: "key_of opt = k" using map_of_keyed[OF k1 Some] .
    have so: "stock_matches opt" using map_of_all[OF s1 Some] .
    have sb: "stock_matches (opt\<lparr>stock := stock opt + 1,
         uniqueNumbers := uniqueNumbers opt @ [unit_identifier it]\<rparr>)"
      using so by (simp add: stock_matches_def)
    show ?thesis using k1 s1 m' Some ko sb
      by (simp add: keyed_update all_update)
  qed
qed

lemma key_of_merge_pair [simp]: "key_of (merge_pair e n) = key_of e"
  by (simp add: merge_pair_def key_of_def)



lemma fst_by_key [simp]: "fst ` set (by_key es) = key_of ` set es"
  by (force simp: by_key_def)


lemma map_of_by_key_Some:
  "distinct (map key_of es) \<Longrightarrow> e \<in> set es \<Longrightarrow> map_of (by_key es) (key_of e) = Some e"
  by (induction es) (auto simp: by_key_def image_iff)

lemma by_key_Cons [simp]: "by_key (e # es) = (key_of e, e) # by_key es"
  by (simp add: by_key_def)

lemma by_key_Nil [simp]: "by_key [] = []"
  by (simp add: by_key_def)

lemma by_key_append [simp]: "by_key (xs @ ys) = by_key xs @ by_key ys"
  by (simp add: by_key_def)









lemma snd_by_key [simp]: "map snd (by_key es) = es"
  by (simp add: by_key_def comp_def)



lemma generic_fold_inv:
  "fold createSelectedOptions_step items (m, f) = (m', f') \<Longrightarrow> keyed m \<Longrightarrow>
   options_all stock_matches m \<Longrightarrow> keyed m' \<and> options_all stock_matches m'"
proof (induction items arbitrary: m f)
  case Nil
  then show ?case by simp
next
  case (Cons it items)
  obtain m1 f1 where s: "createSelectedOptions_step it (m, f) = (m1, f1)"
    by (cases "createSelectedOptions_step it (m, f)")
  have "keyed m1 \<and> options_all stock_matches m1"
    using generic_step_inv[OF s Cons.prems(2,3)] .
  moreover have "fold createSelectedOptions_step items (m1, f1) = (m', f')"
    using Cons.prems(1) s by simp
  ultimately show ?case using Cons.IH by blast
qed

lemma keyed_Nil [simp]: "keyed []"
  by (simp add: keyed_def)

lemma options_all_Nil [simp]: "options_all P []"
  by (simp add: options_all_def)

lemma options_all_list: "options_all P m \<longleftrightarrow> list_all P (map snd m)"
  by (simp add: options_all_def list_all_iff)

lemma createSelectedOptions_inv:
  "distinct (map key_of (fst (createSelectedOptions items fresh))) \<and>
   list_all stock_matches (fst (createSelectedOptions items fresh))"
proof -
  obtain m f where s: "fold createSelectedOptions_step items ([], fresh) = (m, f)"
    by (cases "fold createSelectedOptions_step items ([], fresh)")
  have "keyed m \<and> options_all stock_matches m"
    using generic_fold_inv[OF s] by simp
  then show ?thesis using s keyed_distinct[of m]
    by (simp add: createSelectedOptions_def options_all_list)
qed

lemma wholecell_step_inv:
  assumes "wholecell_step apm it (m, f) = (m', f')"
    and "keyed m" and "options_all stock_matches m"
  shows "keyed m' \<and> options_all stock_matches m'"
proof (cases "status it \<noteq> Some ''Available''")
  case True
  then show ?thesis using assms by (simp add: wholecell_step_def)
next
  case False
  define c where "c = js_or (f_color (product_of it)) ''Unknown''"
  define v where "v = item_variant apm it"
  define k where "k = optionKey c v"
  define pr where "pr = round_div_100 (case total_price_paid it of None \<Rightarrow> 0 | Some n \<Rightarrow> n)"
  define new where "new = \<lparr>color = c, variant = v, stock = 0, price = pr, discount = pr,
       uniqueNumbers = [], opt_id = f\<rparr>"
  define m1 where "m1 = (if map_of m k = None then AList.update k new m else m)"
  have knew: "key_of new = k" by (simp add: new_def k_def key_of_def)
  have snew: "stock_matches new" by (simp add: new_def stock_matches_def)
  have k1: "keyed m1" using assms(2) knew by (simp add: m1_def keyed_update)
  have s1: "options_all stock_matches m1"
    using assms(3) snew by (simp add: m1_def all_update)
  have m': "m' = (case map_of m1 k of None \<Rightarrow> m1 | Some opt \<Rightarrow>
      AList.update k (opt\<lparr>stock := stock opt + 1,
         uniqueNumbers := uniqueNumbers opt @ [unit_identifier it]\<rparr>) m1)"
    using assms(1) False
    by (auto simp: wholecell_step_def Let_def m1_def k_def new_def c_def v_def pr_def
        split: option.splits if_splits)
  show ?thesis
  proof (cases "map_of m1 k")
    case None
    then show ?thesis using k1 s1 m' by simp
  next
    case (Some opt)
    have ko: "key_of opt = k" using map_of_keyed[OF k1 Some] .
    have so: "stock_matches opt" using map_of_all[OF s1 Some] .
    have sb: "stock_matches (opt\<lparr>stock := stock opt + 1,
         uniqueNumbers := uniqueNumbers opt @ [unit_identifier it]\<rparr>)"
      using so by (simp add: stock_matches_def)
    show ?thesis using k1 s1 m' Some ko sb
      by (simp add: keyed_update all_update)
  qed
qed

lemma wholecell_fold_inv:
  "fold (wholecell_step apm) items (m, f) = (m', f') \<Longrightarrow> keyed m \<Longrightarrow>
   options_all stock_matches m \<Longrightarrow> keyed m' \<and> options_all stock_matches m'"
proof (induction items arbitrary: m f)
  case Nil
  then show ?case by simp
next
  case (Cons it items)
  obtain m1 f1 where s: "wholecell_step apm it (m, f) = (m1, f1)"
    by (cases "wholecell_step apm it (m, f)")
  have "keyed m1 \<and> options_all stock_matches m1"
    using wholecell_step_inv[OF s Cons.prems(2,3)] .
  moreover have "fold (wholecell_step apm) items (m1, f1) = (m', f')"
    using Cons.prems(1) s by simp
  ultimately show ?case using Cons.IH by blast
qed

lemma createSelectedOptionsForWholecell_inv:
  assumes "createSelectedOptionsForWholecell items d fresh = Inr (opts, fresh')"
  shows "distinct (map key_of opts) \<and> list_all stock_matches opts"
proof -
  from assms obtain apm m where
    s: "fold (wholecell_step apm) items ([], fresh) = (m, fresh')" and o: "opts = map snd m"
    by (auto simp: createSelectedOptionsForWholecell_def Let_def
        split: sum.splits prod.splits)
  have "keyed m \<and> options_all stock_matches m"
    using wholecell_fold_inv[OF s] by simp
  then show ?thesis using o keyed_distinct[of m] by (simp add: options_all_list)
qed

lemma merge_existing_all:
  "options_all P m \<Longrightarrow> list_all P es \<Longrightarrow> options_all P (fold merge_existing_step es m)"
  by (induction es arbitrary: m) (auto simp: merge_existing_step_def all_update)

lemma merge_new_step_matches:
  assumes "options_all stock_matches m" and "stock_matches n"
  shows "options_all stock_matches (merge_new_step n m)"
proof (cases "map_of m (key_of n)")
  case None
  then show ?thesis using assms by (simp add: merge_new_step_def all_update)
next
  case (Some e)
  have "stock_matches e" using map_of_all[OF assms(1) Some] .
  then have "stock_matches (e\<lparr>stock := stock e + stock n,
      uniqueNumbers := uniqueNumbers e @ uniqueNumbers n,
      price := min (price e) (price n), discount := min (price e) (price n)\<rparr>)"
    using assms(2) by (simp add: stock_matches_def)
  then show ?thesis using Some assms(1)
    by (simp add: merge_new_step_def Let_def all_update)
qed

lemma merge_new_all:
  "options_all stock_matches m \<Longrightarrow> list_all stock_matches ns \<Longrightarrow>
   options_all stock_matches (fold merge_new_step ns m)"
  by (induction ns arbitrary: m) (auto simp: merge_new_step_matches)

lemma mergeSelectedOptions_matches:
  "list_all stock_matches es \<Longrightarrow> list_all stock_matches ns \<Longrightarrow>
   list_all stock_matches (mergeSelectedOptions es ns)"
  using merge_new_all[OF merge_existing_all[of stock_matches "[]" es], of ns]
  by (simp add: mergeSelectedOptions_def options_all_list)

lemma zero_out_matches: "list_all stock_matches (zero_out opts)"
  by (simp add: zero_out_def list_all_iff stock_matches_def)

subsection \<open>What the update of a persisted record carries\<close>



subsection \<open>Product resolution\<close>

lemma special_backslash: "regex_special (CHR 0x5C)"
  by (simp add: regex_special_def)

lemma not_special_plain:
  "\<not> regex_special c \<Longrightarrow> c \<noteq> CHR 0x5C \<and> c \<noteq> CHR ''^'' \<and> c \<noteq> CHR ''$''"
  by (auto simp: regex_special_def)

lemma tokenise_escapeRegex:
  "tokenise (escapeRegex n @ rest) = map_option ((@) (map Lit n)) (tokenise rest)"
proof (induction n)
  case Nil
  then show ?case by (simp add: escapeRegex_def option.map_ident)
next
  case (Cons c n)
  have e: "escapeRegex (c # n) = (if regex_special c then [CHR 0x5C, c] else [c]) @ escapeRegex n"
    by (simp add: escapeRegex_def)
  show ?case
  proof (cases "regex_special c")
    case True
    then show ?thesis using Cons.IH e by (simp add: option.map_comp comp_def)
  next
    case False
    then show ?thesis using Cons.IH e not_special_plain[OF False]
      by (simp add: option.map_comp comp_def)
  qed
qed

lemma tokenise_plain:
  "list_all (\<lambda>c. \<not> regex_special c) n \<Longrightarrow> tokenise n = Some (map Lit n)"
proof (induction n)
  case Nil
  then show ?case by simp
next
  case (Cons c n)
  then show ?case using not_special_plain[of c] by simp
qed

lemma literals_Lit [simp]: "literals (map Lit n) = Some n"
  by (induction n) auto

lemma no_caret_head: "(case map Lit n of Caret # x \<Rightarrow> True | _ \<Rightarrow> False) = False"
  by (cases n) auto

lemma no_dollar_last: "(case rev (map Lit n) of Dollar # x \<Rightarrow> True | _ \<Rightarrow> False) = False"
  by (cases n rule: rev_cases) auto

lemma literal_pattern_exact:
  "literal_pattern (CHR ''^'' # escapeRegex n @ ''$'') = Some (True, n, True)"
proof -
  have "tokenise (CHR ''^'' # escapeRegex n @ ''$'') = Some (Caret # map Lit n @ [Dollar])"
    using tokenise_escapeRegex[of n "''$''"] by simp
  then show ?thesis by (simp add: literal_pattern_def Let_def)
qed

lemma literal_pattern_escaped: "literal_pattern (escapeRegex n) = Some (False, n, False)"
proof -
  have "tokenise (escapeRegex n) = Some (map Lit n)"
    using tokenise_escapeRegex[of n "[]"] by simp
  then show ?thesis
    by (simp add: literal_pattern_def Let_def no_caret_head no_dollar_last del: rev_map)
qed

lemma literal_pattern_plain:
  "list_all (\<lambda>c. \<not> regex_special c) n \<Longrightarrow> literal_pattern n = Some (False, n, False)"
  by (simp add: tokenise_plain literal_pattern_def Let_def no_caret_head no_dollar_last
      del: rev_map)

lemma regex_i_exact:
  "regex_i ext (''^'' @ escapeRegex n @ ''$'') s \<longleftrightarrow> toLowerCase s = toLowerCase n"
  by (simp add: regex_i_def literal_pattern_exact Let_def)

lemma regex_i_escaped:
  "regex_i ext (escapeRegex n) s \<longleftrightarrow> sublist (toLowerCase n) (toLowerCase s)"
  by (simp add: regex_i_def literal_pattern_escaped Let_def)

lemma regex_i_plain:
  "list_all (\<lambda>c. \<not> regex_special c) n \<Longrightarrow>
   regex_i ext n s \<longleftrightarrow> sublist (toLowerCase n) (toLowerCase s)"
  by (simp add: regex_i_def literal_pattern_plain Let_def)

lemma findExistingProduct_eq:
  assumes "\<not> rejects d (AdminFindOne (''^'' @ escapeRegex (candidate_name pd) @ ''$''))"
    and "\<not> rejects d (AdminFindOne (escapeRegex (candidate_name pd)))"
  shows "findExistingProduct pd d =
     Inr (case find (name_eq_i (candidate_name pd)) (tep_admin_products d) of
            Some p \<Rightarrow> Some p
          | None \<Rightarrow> if length (candidate_name pd) > 3
                    then find (name_contains_i (candidate_name pd)) (tep_admin_products d)
                    else None)"
proof -
  have a: "(\<lambda>p. regex_i (regex_ext d) (CHR ''^'' # escapeRegex (candidate_name pd) @ ''$'') (name p))
      = name_eq_i (candidate_name pd)"
    using regex_i_exact[of "regex_ext d" "candidate_name pd"] by (auto simp: name_eq_i_def)
  have b: "(\<lambda>p. regex_i (regex_ext d) (escapeRegex (candidate_name pd)) (name p))
      = name_contains_i (candidate_name pd)"
    by (auto simp: name_contains_i_def regex_i_escaped)
  show ?thesis using assms
    by (simp add: findExistingProduct_def admin_findOne_def Let_def a b split: option.splits)
qed

lemma findOrCreateProduct_eq:
  assumes "plain_name (candidate_name pd)"
    and "\<not> rejects d (AdminFindOne (candidate_name pd))"
    and "\<not> rejects d (AdminInsertOne (candidate_name pd))"
  shows "findOrCreateProduct pd (d, fresh) =
     Inr (case find (name_contains_i (candidate_name pd)) (tep_admin_products d) of
            Some p \<Rightarrow> (p, d, fresh)
          | None \<Rightarrow> (new_product pd fresh,
                     d\<lparr>tep_admin_products := tep_admin_products d @ [new_product pd fresh]\<rparr>,
                     fresh + 1))"
proof -
  have b: "(\<lambda>p. regex_i (regex_ext d) (candidate_name pd) (name p))
      = name_contains_i (candidate_name pd)"
    using assms(1) by (auto simp: name_contains_i_def regex_i_plain plain_name_def)
  show ?thesis using assms(2,3)
    by (simp add: findOrCreateProduct_def admin_findOne_def Let_def b new_product_def
        split: option.splits)
qed

text \<open>
  Claim C5, amended. The candidate name is the trimmed \<^verbatim>\<open>"{manufacturer} {model}"\<close>.
  Without creation (\<open>findExistingProduct\<close>) the first catalog product whose name equals it,
  case ignored, is returned; when there is none and the name is longer than 3, the first
  product whose name contains it, case ignored; otherwise nothing. With creation
  (\<open>findOrCreateProduct\<close>), for a name free of regular-expression metacharacters, the first
  product whose name contains it, case ignored, is returned, with no attempt at an exact
  match and no bound on the length; when there is none a product is inserted whose
  category is the manufacturer (\<^verbatim>\<open>"Unknown"\<close> without one) and whose
  \<open>imagesByColor\<close> is empty. The calls on the store are assumed not to reject.
\<close>

theorem product_resolution:
  "(\<not> rejects d (AdminFindOne (''^'' @ escapeRegex (candidate_name pd) @ ''$'')) \<and>
    \<not> rejects d (AdminFindOne (escapeRegex (candidate_name pd)))
    \<longrightarrow> findExistingProduct pd d =
         Inr (case find (name_eq_i (candidate_name pd)) (tep_admin_products d) of
                Some p \<Rightarrow> Some p
              | None \<Rightarrow> if length (candidate_name pd) > 3
                        then find (name_contains_i (candidate_name pd)) (tep_admin_products d)
                        else None)) \<and>
   (plain_name (candidate_name pd) \<and>
    \<not> rejects d (AdminFindOne (candidate_name pd)) \<and>
    \<not> rejects d (AdminInsertOne (candidate_name pd))
    \<longrightarrow> findOrCreateProduct pd (d, fresh) =
         Inr (case find (name_contains_i (candidate_name pd)) (tep_admin_products d) of
                Some p \<Rightarrow> (p, d, fresh)
              | None \<Rightarrow> (new_product pd fresh,
                         d\<lparr>tep_admin_products :=
                              tep_admin_products d @ [new_product pd fresh]\<rparr>,
                         fresh + 1)))"
  using findExistingProduct_eq findOrCreateProduct_eq by blast

lemmas store_eval = store_def catalog_entry_def acme_item_def product_of_def candidate_name_def
  trim_def js_or_def is_space_def

text \<open>
  The catalog holds only "Acme X10": no name equals "Acme X1", yet resolution with
  creation returns that product and inserts nothing.
\<close>

theorem product_resolution_counterexample:
  "find (name_eq_i ''Acme X1'') [catalog_entry 7 ''Acme X10'' None] = None \<and>
   findOrCreateProduct (product_of (acme_item 1))
       (store [catalog_entry 7 ''Acme X10'' None] [], 100)
     = Inr (catalog_entry 7 ''Acme X10'' None, store [catalog_entry 7 ''Acme X10'' None] [], 100)"
  by (simp add: findOrCreateProduct_def admin_findOne_def regex_i_def literal_pattern_def
        regex_special_def toLowerCase_def toLowerCase_char_def Let_def name_eq_i_def store_eval)

theorem product_resolution_witness:
  "findExistingProduct (product_of (acme_item 1)) (store [catalog_entry 7 ''ACME X1 Pro'' None] [])
     = Inr (Some (catalog_entry 7 ''ACME X1 Pro'' None)) \<and>
   findOrCreateProduct (product_of (acme_item 1)) (store [] [], 100)
     = Inr (new_product (product_of (acme_item 1)) 100,
            store [new_product (product_of (acme_item 1)) 100] [], 101)"
proof -
  let ?pd = "product_of (acme_item 1)"
  let ?d = "store [catalog_entry 7 ''ACME X1 Pro'' None] []"
  have n: "candidate_name ?pd = ''Acme X1''" by code_simp
  have r: "rejects ?d = (\<lambda>_. False)" "rejects (store [] []) = (\<lambda>_. False)"
    by (simp_all add: store_def)
  have p: "plain_name (candidate_name ?pd)" by code_simp
  have c: "(case find (name_eq_i ''Acme X1'') (tep_admin_products ?d) of
                Some p \<Rightarrow> Some p
              | None \<Rightarrow> if length ''Acme X1'' > 3
                        then find (name_contains_i ''Acme X1'') (tep_admin_products ?d)
                        else None) = Some (catalog_entry 7 ''ACME X1 Pro'' None)"
    by code_simp
  have e: "tep_admin_products (store [] []) = []" by (simp add: store_def)
  have u: "\<And>x. store [] []\<lparr>tep_admin_products := x\<rparr> = store x []"
    by (simp add: store_def)
  show ?thesis
    using product_resolution[of ?d ?pd 100] product_resolution[of "store [] []" ?pd 100] p
    unfolding n r by (simp add: c e u n)
qed

subsection \<open>The variant descriptor and the two-item scenario\<close>

lemma generic_step_upsert:
  "fst (createSelectedOptions_step it (m, f))
   = upsert_bump (key_of (generic_new it f)) (generic_new it f) (status it \<noteq> Some ''Sold'')
       (unit_identifier it) m"
  by (simp add: createSelectedOptions_step_def upsert_bump_def generic_new_def key_of_def Let_def
      split: option.splits)

lemma wholecell_step_upsert:
  "status it = Some ''Available'' \<Longrightarrow>
   fst (wholecell_step apm it (m, f))
   = upsert_bump (key_of (wholecell_new apm it f)) (wholecell_new apm it f) True
       (unit_identifier it) m"
  by (simp add: wholecell_step_def upsert_bump_def wholecell_new_def key_of_def Let_def
      split: option.splits)

lemma wholecell_step_skip:
  "status it \<noteq> Some ''Available'' \<Longrightarrow> wholecell_step apm it st = st"
  by (simp add: wholecell_step_def)

lemma upsert_bump_keys:
  "fst ` set (upsert_bump k new b uid m) = insert k (fst ` set m)"
proof -
  define m1 where "m1 = (if map_of m k = None then AList.update k new m else m)"
  have k1: "fst ` set m1 = insert k (fst ` set m)"
    by (auto simp: m1_def dom_update map_of_eq_None_iff)
  show ?thesis
    unfolding upsert_bump_def m1_def[symmetric] Let_def using k1
    by (auto simp: dom_update split: option.splits)
qed

lemma upsert_bump_all:
  assumes "options_all Q m" and "Q new"
    and "\<And>opt s u. Q opt \<Longrightarrow> Q (opt\<lparr>stock := s, uniqueNumbers := u\<rparr>)"
  shows "options_all Q (upsert_bump k new b uid m)"
proof -
  define m1 where "m1 = (if map_of m k = None then AList.update k new m else m)"
  have a1: "options_all Q m1" using assms(1,2) by (simp add: m1_def all_update)
  show ?thesis
  proof (cases "map_of m1 k")
    case None
    then show ?thesis using a1 by (simp add: upsert_bump_def m1_def[symmetric])
  next
    case (Some opt)
    then have "Q opt" using a1 map_of_all by blast
    then show ?thesis using a1 Some assms(3)
      by (simp add: upsert_bump_def m1_def[symmetric] all_update)
  qed
qed

lemma wholecell_key_new [simp]: "key_of (wholecell_new apm it f) = wholecell_key apm it"
  by (simp add: wholecell_new_def wholecell_key_def key_of_def)

lemma generic_key_new [simp]: "key_of (generic_new it f) = generic_key it"
  by (simp add: generic_new_def generic_key_def key_of_def)

lemma item_variant_chain:
  "item_variant apm it
   = restricted_variant_chain (item_spec apm it) (js_or (f_capacity (product_of it)) [])"
  by (auto simp: item_variant_def restricted_variant_chain_def item_spec_def wholecell_variant_def
      findMatchingStorageSpec_def truthy_def js_includes_def Let_def split: option.splits)

lemma generic_variant_chain:
  "generic_variant p = generic_variant_chain (f_variant p) (f_capacity p)"
  by (auto simp: generic_variant_def generic_variant_chain_def truthy_def js_or_def Let_def
      split: option.splits)

lemma wholecell_fold_keys:
  "fst ` set (fst (fold (wholecell_step apm) items (m, f)))
   = fst ` set m \<union> wholecell_key apm ` {it \<in> set items. status it = Some ''Available''}"
proof (induction items arbitrary: m f)
  case Nil
  then show ?case by simp
next
  case (Cons it items)
  obtain m1 f1 where s: "wholecell_step apm it (m, f) = (m1, f1)"
    by (cases "wholecell_step apm it (m, f)")
  have k1: "fst ` set m1 = fst ` set m \<union>
      wholecell_key apm ` {x \<in> {it}. status x = Some ''Available''}"
  proof (cases "status it = Some ''Available''")
    case True
    then show ?thesis
      using wholecell_step_upsert[OF True, of apm m f] s by (auto simp: upsert_bump_keys)
  next
    case False
    then show ?thesis using wholecell_step_skip[OF False, of apm "(m, f)"] s by auto
  qed
  have "fst ` set (fst (fold (wholecell_step apm) (it # items) (m, f)))
      = fst ` set m1 \<union> wholecell_key apm ` {it \<in> set items. status it = Some ''Available''}"
    using Cons.IH[of m1 f1] s by simp
  then show ?case unfolding k1 by auto
qed

lemma generic_fold_keys:
  "fst ` set (fst (fold createSelectedOptions_step items (m, f)))
   = fst ` set m \<union> generic_key ` set items"
proof (induction items arbitrary: m f)
  case Nil
  then show ?case by simp
next
  case (Cons it items)
  obtain m1 f1 where s: "createSelectedOptions_step it (m, f) = (m1, f1)"
    by (cases "createSelectedOptions_step it (m, f)")
  have k1: "fst ` set m1 = insert (generic_key it) (fst ` set m)"
    using generic_step_upsert[of it m f] s by (simp add: upsert_bump_keys)
  have "fst ` set (fst (fold createSelectedOptions_step (it # items) (m, f)))
      = fst ` set m1 \<union> generic_key ` set items"
    using Cons.IH[of m1 f1] s by simp
  then show ?case unfolding k1 by auto
qed

lemma wholecell_fold_origin:
  "set xs \<subseteq> set items \<Longrightarrow> options_all (from_restricted_item apm items) m \<Longrightarrow>
   options_all (from_restricted_item apm items) (fst (fold (wholecell_step apm) xs (m, f)))"
proof (induction xs arbitrary: m f)
  case Nil
  then show ?case by simp
next
  case (Cons it xs)
  obtain m1 f1 where s: "wholecell_step apm it (m, f) = (m1, f1)"
    by (cases "wholecell_step apm it (m, f)")
  have "options_all (from_restricted_item apm items) m1"
  proof (cases "status it = Some ''Available''")
    case True
    have "from_restricted_item apm items (wholecell_new apm it f)"
      using True Cons.prems(1) by (auto simp: from_restricted_item_def wholecell_new_def)
    moreover have "\<And>opt s u. from_restricted_item apm items opt \<Longrightarrow>
        from_restricted_item apm items (opt\<lparr>stock := s, uniqueNumbers := u\<rparr>)"
      by (simp add: from_restricted_item_def)
    ultimately have "options_all (from_restricted_item apm items)
        (upsert_bump (wholecell_key apm it) (wholecell_new apm it f) True (unit_identifier it) m)"
      using Cons.prems(2) by (intro upsert_bump_all)
    then show ?thesis
      using wholecell_step_upsert[OF True, of apm m f] s by simp
  next
    case False
    then show ?thesis using wholecell_step_skip[OF False, of apm "(m, f)"] s Cons.prems(2) by simp
  qed
  then show ?case using Cons.IH[of m1 f1] Cons.prems(1) s by simp
qed

lemma generic_fold_origin:
  "set xs \<subseteq> set items \<Longrightarrow> options_all (from_generic_item items) m \<Longrightarrow>
   options_all (from_generic_item items) (fst (fold createSelectedOptions_step xs (m, f)))"
proof (induction xs arbitrary: m f)
  case Nil
  then show ?case by simp
next
  case (Cons it xs)
  obtain m1 f1 where s: "createSelectedOptions_step it (m, f) = (m1, f1)"
    by (cases "createSelectedOptions_step it (m, f)")
  have "from_generic_item items (generic_new it f)"
    using Cons.prems(1) by (auto simp: from_generic_item_def generic_new_def)
  moreover have "\<And>opt s u. from_generic_item items opt \<Longrightarrow>
      from_generic_item items (opt\<lparr>stock := s, uniqueNumbers := u\<rparr>)"
    by (simp add: from_generic_item_def)
  ultimately have "options_all (from_generic_item items)
      (upsert_bump (generic_key it) (generic_new it f) (status it \<noteq> Some ''Sold'')
         (unit_identifier it) m)"
    using Cons.prems(2) by (intro upsert_bump_all)
  then have "options_all (from_generic_item items) m1"
    using generic_step_upsert[of it m f] s by simp
  then show ?case using Cons.IH[of m1 f1] Cons.prems(1) s by simp
qed

lemma key_in_values:
  assumes "keyed m" and "k \<in> fst ` set m"
  shows "\<exists>opt \<in> set (map snd m). key_of opt = k"
proof -
  from assms(2) obtain opt where "(k, opt) \<in> set m" by force
  then show ?thesis using assms(1) by (force simp: keyed_def)
qed

lemma createSelectedOptionsForWholecell_fold:
  assumes "createSelectedOptionsForWholecell items d fresh = Inr (opts, fresh')"
  shows "fold (wholecell_step (feed_adminProductMap d items)) items ([], fresh)
           = (fst (fold (wholecell_step (feed_adminProductMap d items)) items ([], fresh)), fresh')
         \<and> opts = map snd (fst (fold (wholecell_step (feed_adminProductMap d items)) items
               ([], fresh)))"
  using assms
  by (auto simp: createSelectedOptionsForWholecell_def feed_adminProductMap_def Let_def
      split: sum.splits prod.splits)

text \<open>
  Claim C7, amended. The restricted adapter chooses: without a capacity, "Unknown"; with
  a capacity and no storage specification on the catalog product stored under the item's
  name, \<^verbatim>\<open>"{capacity}GB 4GB RAM"\<close>; with both, the first token of the specification
  containing \<^verbatim>\<open>"{capacity}GB"\<close>, else the first containing the capacity, else
  "Unknown". The generic adapter chooses the vendor's variant label, else
  \<^verbatim>\<open>"{capacity}GB"\<close>, else "Standard". Every option an adapter aggregates carries the
  colour and the variant so chosen for one of the items, and every item that counts has
  an option under the key of its colour and variant.
\<close>

theorem variant_descriptor:
  "item_variant apm it
     = restricted_variant_chain (item_spec apm it) (js_or (f_capacity (product_of it)) []) \<and>
   generic_variant p = generic_variant_chain (f_variant p) (f_capacity p) \<and>
   (createSelectedOptionsForWholecell items d fresh = Inr (opts, fresh') \<longrightarrow>
      (\<forall>opt \<in> set opts. from_restricted_item (feed_adminProductMap d items) items opt) \<and>
      (\<forall>x \<in> set items. status x = Some ''Available'' \<longrightarrow>
         (\<exists>opt \<in> set opts. key_of opt = wholecell_key (feed_adminProductMap d items) x))) \<and>
   (\<forall>opt \<in> set (fst (createSelectedOptions items fresh)). from_generic_item items opt) \<and>
   (\<forall>x \<in> set items. \<exists>opt \<in> set (fst (createSelectedOptions items fresh)).
      key_of opt = generic_key x)"
proof (intro conjI impI)
  show "item_variant apm it
     = restricted_variant_chain (item_spec apm it) (js_or (f_capacity (product_of it)) [])"
    by (rule item_variant_chain)
  show "generic_variant p = generic_variant_chain (f_variant p) (f_capacity p)"
    by (rule generic_variant_chain)
next
  let ?apm = "feed_adminProductMap d items"
  let ?m = "fst (fold (wholecell_step ?apm) items ([], fresh))"
  assume a: "createSelectedOptionsForWholecell items d fresh = Inr (opts, fresh')"
  then have f: "fold (wholecell_step ?apm) items ([], fresh) = (?m, fresh')"
    and o: "opts = map snd ?m"
    using createSelectedOptionsForWholecell_fold by blast+
  have "options_all (from_restricted_item ?apm items) ?m"
    using wholecell_fold_origin[of items items ?apm "[]" fresh] by simp
  then show "\<forall>opt \<in> set opts. from_restricted_item ?apm items opt"
    using o by (simp add: options_all_def)
  have k: "keyed ?m" using wholecell_fold_inv[OF f] by simp
  show "\<forall>x \<in> set items. status x = Some ''Available'' \<longrightarrow>
         (\<exists>opt \<in> set opts. key_of opt = wholecell_key ?apm x)"
  proof (intro ballI impI)
    fix x assume "x \<in> set items" "status x = Some ''Available''"
    then have "wholecell_key ?apm x \<in> fst ` set ?m"
      unfolding wholecell_fold_keys by auto
    then show "\<exists>opt \<in> set opts. key_of opt = wholecell_key ?apm x"
      using key_in_values[OF k] o by blast
  qed
next
  let ?m = "fst (fold createSelectedOptions_step items ([], fresh))"
  have o: "fst (createSelectedOptions items fresh) = map snd ?m"
    by (simp add: createSelectedOptions_def split: prod.splits)
  have "options_all (from_generic_item items) ?m"
    using generic_fold_origin[of items items "[]" fresh] by simp
  then show "\<forall>opt \<in> set (fst (createSelectedOptions items fresh)). from_generic_item items opt"
    unfolding o by (simp add: options_all_def)
  have "fold createSelectedOptions_step items ([], fresh)
      = (?m, snd (fold createSelectedOptions_step items ([], fresh)))"
    by simp
  then have k: "keyed ?m"
    using generic_fold_inv[of items "[]" fresh ?m
        "snd (fold createSelectedOptions_step items ([], fresh))"] by simp
  show "\<forall>x \<in> set items. \<exists>opt \<in> set (fst (createSelectedOptions items fresh)).
      key_of opt = generic_key x"
  proof
    fix x assume "x \<in> set items"
    then have "generic_key x \<in> fst ` set ?m"
      unfolding generic_fold_keys by auto
    then show "\<exists>opt \<in> set (fst (createSelectedOptions items fresh)). key_of opt = generic_key x"
      using key_in_values[OF k] o by simp
  qed
qed









text \<open>
  An item of the restricted adapter without capacity and with the vendor's label "Pro"
  gets "Unknown", where the claimed order gives "Pro"; an item of the generic adapter with
  capacity 128 and no label gets "128GB", where the claimed order gives "128GB 4GB RAM".
\<close>

theorem variant_descriptor_counterexample:
  "createSelectedOptionsForWholecell [pro_item] (store [] []) 100
     = Inr ([\<lparr>color = ''Black'', variant = ''Unknown'', stock = 1, price = 100, discount = 100,
              uniqueNumbers = [''item_3''], opt_id = 100\<rparr>], 101) \<and>
   claimed_variant None [] (f_variant (product_of pro_item)) = ''Pro'' \<and>
   createSelectedOptions [acme_item 1] 100
     = ([\<lparr>color = ''Black'', variant = ''128GB'', stock = 1, price = 10000, discount = 0,
           uniqueNumbers = [''item_1''], opt_id = 100\<rparr>], 101) \<and>
   claimed_variant None ''128'' (f_variant (product_of (acme_item 1))) = ''128GB 4GB RAM''"
  by code_simp

theorem variant_descriptor_witness:
  "createSelectedOptionsForWholecell acme_feed
      (store [catalog_entry 7 ''Acme X1'' (Some ''64GB 4GB RAM, 128GB 6GB RAM'')] []) 100
   = Inr ([\<lparr>color = ''Black'', variant = ''128GB 6GB RAM'', stock = 2, price = 100,
            discount = 100, uniqueNumbers = [''item_1'', ''item_2''], opt_id = 100\<rparr>], 101) \<and>
   from_restricted_item
     (feed_adminProductMap
        (store [catalog_entry 7 ''Acme X1'' (Some ''64GB 4GB RAM, 128GB 6GB RAM'')] []) acme_feed)
     acme_feed
     \<lparr>color = ''Black'', variant = ''128GB 6GB RAM'', stock = 2, price = 100,
       discount = 100, uniqueNumbers = [''item_1'', ''item_2''], opt_id = 100\<rparr> \<and>
   (\<exists>opt \<in> set (fst (createSelectedOptions acme_feed 100)).
      key_of opt = generic_key (acme_item 1))"
proof -
  let ?d = "store [catalog_entry 7 ''Acme X1'' (Some ''64GB 4GB RAM, 128GB 6GB RAM'')] []"
  let ?o = "\<lparr>color = ''Black'', variant = ''128GB 6GB RAM'', stock = 2, price = 100,
       discount = 100, uniqueNumbers = [''item_1'', ''item_2''], opt_id = 100\<rparr>"
  have h: "createSelectedOptionsForWholecell acme_feed ?d 100 = Inr ([?o], 101)"
    by code_simp
  have i: "acme_item 1 \<in> set acme_feed" by (simp add: acme_feed_def)
  show ?thesis
    using variant_descriptor[of _ _ _ acme_feed ?d 100 "[?o]" 101] h i by simp
qed

subsection \<open>The restricted pipeline: unmatched groups\<close>

lemma filter_valid_groups_eq:
  "lookups_succeed d gs \<Longrightarrow>
   filter_valid_groups gs d = Inr (matched_groups d gs, length (unmatched_groups d gs))"
proof (induction gs)
  case Nil
  then show ?case by (simp add: unmatched_groups_def)
next
  case (Cons kg gs)
  obtain k g where kg: "kg = (k, g)" by (cases kg)
  have "lookups_succeed d gs" using Cons.prems by (simp add: lookups_succeed_def)
  then have ih: "filter_valid_groups gs d
      = Inr (matched_groups d gs, length (unmatched_groups d gs))"
    using Cons.IH by simp
  obtain r where r: "findExistingProduct (g_product g) d = Inr r"
    using Cons.prems kg by (cases "findExistingProduct (g_product g) d")
      (auto simp: lookups_succeed_def)
  show ?case using ih r kg by (cases r) (simp_all add: unmatched_groups_def)
qed

lemma wholecell_group_ops:
  "\<exists>new. bulkOps (wholecell_group v (k, g, p) st) = bulkOps st @ new \<and>
     (\<forall>op \<in> set new. writes_record v (ap_id p) fixedConditionId op) \<and> length new \<le> 1"
  by (auto simp: wholecell_group_def Let_def split: sum.splits option.splits prod.splits)

lemma wholecell_group_db [simp]: "cur_db (wholecell_group v kgp st) = cur_db st"
  by (auto simp: wholecell_group_def Let_def split: sum.splits option.splits prod.splits)

lemma wholecell_fold_db [simp]: "cur_db (fold (wholecell_group v) gs st) = cur_db st"
  by (induction gs arbitrary: st) auto

lemma wholecell_fold_ops:
  "\<exists>new. bulkOps (fold (wholecell_group v) gs st) = bulkOps st @ new \<and>
     (\<forall>op \<in> set new. \<exists>(k, g, p) \<in> set gs. writes_record v (ap_id p) fixedConditionId op)"
proof (induction gs arbitrary: st)
  case Nil
  then show ?case by simp
next
  case (Cons kgp gs)
  obtain k g p where kgp: "kgp = (k, g, p)" by (cases kgp)
  obtain n1 where n1: "bulkOps (wholecell_group v (k, g, p) st) = bulkOps st @ n1"
    "\<forall>op \<in> set n1. writes_record v (ap_id p) fixedConditionId op"
    using wholecell_group_ops by blast
  obtain n2 where n2: "bulkOps (fold (wholecell_group v) gs (wholecell_group v (k, g, p) st))
      = bulkOps (wholecell_group v (k, g, p) st) @ n2"
    "\<forall>op \<in> set n2. \<exists>(k, g, p) \<in> set gs. writes_record v (ap_id p) fixedConditionId op"
    using Cons.IH by blast
  have "bulkOps (fold (wholecell_group v) (kgp # gs) st) = bulkOps st @ (n1 @ n2)"
    using n1(1) n2(1) kgp by simp
  moreover have "\<forall>op \<in> set (n1 @ n2).
      \<exists>(k, g, p) \<in> set (kgp # gs). writes_record v (ap_id p) fixedConditionId op"
    using n1(2) n2(2) kgp by auto
  ultimately show ?case by blast
qed

lemma apply_set_id [simp]: "vp_id (apply_set u r) = vp_id r"
  by (cases u) auto

lemma update_first_ids:
  "(\<And>x. vp_id (f x) = vp_id x) \<Longrightarrow> map vp_id (update_first P f rs) = map vp_id rs"
  by (induction rs) auto

lemma apply_op_ids:
  "\<not> is_delete op \<Longrightarrow> prefix (map vp_id rs) (map vp_id (fst (apply_op op (rs, f))))"
  by (cases op) (auto simp: update_first_ids)

lemma fold_apply_op_ids:
  "\<forall>op \<in> set ops. \<not> is_delete op \<Longrightarrow>
   prefix (map vp_id rs) (map vp_id (fst (fold apply_op ops (rs, f))))"
proof (induction ops arbitrary: rs f)
  case Nil
  then show ?case by simp
next
  case (Cons op ops)
  obtain rs1 f1 where s: "apply_op op (rs, f) = (rs1, f1)" by (cases "apply_op op (rs, f)")
  have "prefix (map vp_id rs) (map vp_id rs1)"
    using apply_op_ids[of op rs f] Cons.prems s by simp
  moreover have "prefix (map vp_id rs1) (map vp_id (fst (fold apply_op ops (rs1, f1))))"
    using Cons.IH Cons.prems by simp
  ultimately show ?case using s by (auto intro: prefix_order.trans)
qed

lemma bulkWrite_result:
  "bulkWrite ops (d, f) = Inr (d', f') \<Longrightarrow>
   d' = d\<lparr>tep_vendor_products := fst (fold apply_op ops (tep_vendor_products d, f))\<rparr>"
  by (auto simp: bulkWrite_def Let_def split: if_splits prod.splits)

lemma bulkWrite_ids:
  assumes "bulkWrite ops (d, f) = Inr (d', f')" and "\<forall>op \<in> set ops. \<not> is_delete op"
  shows "prefix (map vp_id (tep_vendor_products d)) (map vp_id (tep_vendor_products d'))"
  using bulkWrite_result[OF assms(1)] fold_apply_op_ids[OF assms(2)] by simp

lemma writes_record_no_delete: "writes_record v p c op \<Longrightarrow> \<not> is_delete op"
  by (cases op) auto

lemma wholecell_plan_ops:
  assumes "wholecell_plan v d fresh resp = Inr (st, fetched, valid, skipped)"
  shows "\<forall>op \<in> set (bulkOps st). \<exists>p. writes_record v p fixedConditionId op"
proof -
  from assms obtain gs where st: "st = fold (wholecell_group v) gs (init_state d fresh)"
    by (auto simp: wholecell_plan_def split: sum.splits)
  obtain new where "bulkOps st = bulkOps (init_state d fresh) @ new"
    "\<forall>op \<in> set new. \<exists>(k, g, p) \<in> set gs. writes_record v (ap_id p) fixedConditionId op"
    using wholecell_fold_ops[of v gs "init_state d fresh"] st by blast
  then show ?thesis by (fastforce simp: init_state_def)
qed

lemma syncWholecellVendor_db:
  "fst (snd (syncWholecellVendor api d fresh resp)) = d \<or>
   (\<exists>st fetched valid skipped f'.
      wholecell_plan (api_vendorId api) d fresh resp = Inr (st, fetched, valid, skipped) \<and>
      bulkWrite (bulkOps st) (d, fresh_id st)
        = Inr (fst (snd (syncWholecellVendor api d fresh resp)), f'))"
  by (auto simp: syncWholecellVendor_def split: sum.splits prod.splits if_splits)

lemma syncWholecellVendor_catalog:
  "tep_admin_products (fst (snd (syncWholecellVendor api d fresh resp))) = tep_admin_products d"
  using syncWholecellVendor_db[of api d fresh resp] bulkWrite_result by fastforce

text \<open>
  Claim C8. When no catalog lookup rejects, the plan of the restricted adapter is the
  pass over the matched groups alone, started from the empty batch: a group that cannot be
  matched contributes nothing, every operation writes the record of the product of a
  matched group, and the groups after it are processed. The run returns its summary when
  the batch write does not reject, with the unmatched groups counted under
  \<open>skippedProducts\<close>. No run changes the catalog.
\<close>

theorem unmatched_groups_are_skipped:
  "(lookups_succeed d (groupItemsByProductAndCondition items) \<longrightarrow>
      wholecell_plan (api_vendorId api) d fresh (Inr items) =
        Inr (fold (wholecell_group (api_vendorId api))
               (matched_groups d (groupItemsByProductAndCondition items)) (init_state d fresh),
             length items,
             length (matched_groups d (groupItemsByProductAndCondition items)),
             length (unmatched_groups d (groupItemsByProductAndCondition items))) \<and>
      (\<forall>op \<in> set (bulkOps (fold (wholecell_group (api_vendorId api))
               (matched_groups d (groupItemsByProductAndCondition items))
               (init_state d fresh))).
         \<exists>(k, g, p) \<in> set (matched_groups d (groupItemsByProductAndCondition items)).
           writes_record (api_vendorId api) (ap_id p) fixedConditionId op) \<and>
      (\<not> rejects d VendorBulkWrite \<longrightarrow>
         (\<exists>s. fst (syncWholecellVendor api d fresh (Inr items)) = Inr s \<and>
              skippedProducts s
                = Some (length (unmatched_groups d (groupItemsByProductAndCondition items))) \<and>
              validProducts s
                = Some (length (matched_groups d (groupItemsByProductAndCondition items)))))) \<and>
   tep_admin_products (fst (snd (syncWholecellVendor api d fresh resp))) = tep_admin_products d"
proof (intro conjI impI)
  let ?gs = "groupItemsByProductAndCondition items"
  let ?v = "api_vendorId api"
  let ?st = "fold (wholecell_group ?v) (matched_groups d ?gs) (init_state d fresh)"
  assume l: "lookups_succeed d ?gs"
  show p: "wholecell_plan ?v d fresh (Inr items)
      = Inr (?st, length items, length (matched_groups d ?gs), length (unmatched_groups d ?gs))"
    using filter_valid_groups_eq[OF l] by (simp add: wholecell_plan_def)
  show "\<forall>op \<in> set (bulkOps ?st). \<exists>(k, g, p) \<in> set (matched_groups d ?gs).
           writes_record ?v (ap_id p) fixedConditionId op"
    using wholecell_fold_ops[of ?v "matched_groups d ?gs" "init_state d fresh"]
    by (auto simp: init_state_def)
  assume "\<not> rejects d VendorBulkWrite"
  then show "\<exists>s. fst (syncWholecellVendor api d fresh (Inr items)) = Inr s \<and>
      skippedProducts s = Some (length (unmatched_groups d ?gs)) \<and>
      validProducts s = Some (length (matched_groups d ?gs))"
    using p by (simp add: syncWholecellVendor_def bulkWrite_def Let_def split: prod.splits)
next
  show "tep_admin_products (fst (snd (syncWholecellVendor api d fresh resp)))
      = tep_admin_products d"
    by (rule syncWholecellVendor_catalog)
qed

theorem unmatched_groups_witness:
  "lookups_succeed acme_catalog (groupItemsByProductAndCondition mixed_feed) \<and>
   \<not> rejects acme_catalog VendorBulkWrite \<and>
   map fst (unmatched_groups acme_catalog (groupItemsByProductAndCondition mixed_feed))
     = [''Zeta_Z9_A''] \<and>
   (\<exists>s. fst (syncWholecellVendor \<lparr>api_vendorId = 1, api_database = Some ''wholecell''\<rparr>
               acme_catalog 100 (Inr mixed_feed)) = Inr s \<and>
        skippedProducts s = Some 1 \<and> validProducts s = Some 1)"
proof -
  have l: "lookups_succeed acme_catalog (groupItemsByProductAndCondition mixed_feed)"
    by code_simp
  have r: "\<not> rejects acme_catalog VendorBulkWrite" by code_simp
  have u: "map fst (unmatched_groups acme_catalog (groupItemsByProductAndCondition mixed_feed))
     = [''Zeta_Z9_A'']"
    by code_simp
  have n: "length (unmatched_groups acme_catalog (groupItemsByProductAndCondition mixed_feed)) = 1"
    "length (matched_groups acme_catalog (groupItemsByProductAndCondition mixed_feed)) = 1"
    by code_simp+
  show ?thesis
    using unmatched_groups_are_skipped[of acme_catalog mixed_feed
        "\<lparr>api_vendorId = 1, api_database = Some ''wholecell''\<rparr>" 100] l r u
    unfolding n by simp
qed

subsection \<open>No deletion, zero-out, and failures of a group\<close>

lemma findOrCreateProduct_vendor:
  "findOrCreateProduct pd (d, f) = Inr (p, d', f') \<Longrightarrow>
   tep_vendor_products d' = tep_vendor_products d"
  by (auto simp: findOrCreateProduct_def Let_def split: sum.splits option.splits if_splits)

lemma generic_group_vendor:
  "tep_vendor_products (cur_db (generic_group v genv kg st)) = tep_vendor_products (cur_db st)"
  by (auto simp: generic_group_def Let_def dest: findOrCreateProduct_vendor
      split: sum.splits option.splits prod.splits)

lemma generic_fold_vendor:
  "tep_vendor_products (cur_db (fold (generic_group v genv) gs st))
   = tep_vendor_products (cur_db st)"
  by (induction gs arbitrary: st) (auto simp: generic_group_vendor)

lemma generic_group_ops:
  "\<exists>new. bulkOps (generic_group v genv kg st) = bulkOps st @ new \<and>
     (\<forall>op \<in> set new. \<exists>p c. writes_record v p c op)"
  by (auto simp: generic_group_def Let_def split: sum.splits option.splits prod.splits)

lemma generic_fold_ops:
  "\<exists>new. bulkOps (fold (generic_group v genv) gs st) = bulkOps st @ new \<and>
     (\<forall>op \<in> set new. \<exists>p c. writes_record v p c op)"
proof (induction gs arbitrary: st)
  case Nil
  then show ?case by simp
next
  case (Cons kg gs)
  obtain n1 where n1: "bulkOps (generic_group v genv kg st) = bulkOps st @ n1"
    "\<forall>op \<in> set n1. \<exists>p c. writes_record v p c op"
    using generic_group_ops by blast
  obtain n2 where n2: "bulkOps (fold (generic_group v genv) gs (generic_group v genv kg st))
      = bulkOps (generic_group v genv kg st) @ n2"
    "\<forall>op \<in> set n2. \<exists>p c. writes_record v p c op"
    using Cons.IH by blast
  have "bulkOps (fold (generic_group v genv) (kg # gs) st) = bulkOps st @ (n1 @ n2)"
    using n1(1) n2(1) by simp
  moreover have "\<forall>op \<in> set (n1 @ n2). \<exists>p c. writes_record v p c op"
    using n1(2) n2(2) by auto
  ultimately show ?case by blast
qed

lemma current_combinations_vendor:
  "current_combinations genv gs (d, f) = Inr (combs, d2, f2) \<Longrightarrow>
   tep_vendor_products d2 = tep_vendor_products d"
  "current_combinations genv gs (d, f) = Inl (e, d1, f1) \<Longrightarrow>
   tep_vendor_products d1 = tep_vendor_products d"
proof (induction gs arbitrary: d f combs)
  case Nil
  { case 1 then show ?case by simp
  next case 2 then show ?case by simp }
next
  case (Cons kg gs)
  obtain k g where kg: "kg = (k, g)" by (cases kg)
  { case 1
    then show ?case using Cons.IH(1) kg
      by (auto split: sum.splits prod.splits dest: findOrCreateProduct_vendor)
  next
    case 2
    then show ?case using Cons.IH(2) kg
      by (auto split: sum.splits prod.splits dest: findOrCreateProduct_vendor) }
qed

lemma generic_plan_Inr:
  assumes "generic_plan v genv d fresh (Inr items) = Inr (st, fetched, groups, marked)"
  shows "\<exists>new. bulkOps st = new @ mark_out_of_stock (feed_combinations v genv d fresh items)
             (filter (\<lambda>r. vendorId r = v) (tep_vendor_products d)) \<and>
           (\<forall>op \<in> set new. \<exists>p c. writes_record v p c op) \<and>
           marked = length (mark_out_of_stock (feed_combinations v genv d fresh items)
             (filter (\<lambda>r. vendorId r = v) (tep_vendor_products d)))"
    and "tep_vendor_products (cur_db st) = tep_vendor_products d"
proof -
  let ?gs = "groupItemsByProductAndCondition items"
  let ?st1 = "fold (generic_group v genv) ?gs (init_state d fresh)"
  have v1: "tep_vendor_products (cur_db ?st1) = tep_vendor_products d"
    using generic_fold_vendor[of v genv ?gs "init_state d fresh"] by (simp add: init_state_def)
  from assms obtain combs d2 f2 where
    c: "current_combinations genv ?gs (cur_db ?st1, fresh_id ?st1) = Inr (combs, d2, f2)"
    and f: "\<not> rejects (cur_db ?st1) (VendorFind v)"
    and st: "st = ?st1\<lparr>bulkOps := bulkOps ?st1 @ mark_out_of_stock combs
               (filter (\<lambda>r. vendorId r = v) (tep_vendor_products (cur_db ?st1))),
             cur_db := d2, fresh_id := f2\<rparr>"
    and m: "marked = length (mark_out_of_stock combs
               (filter (\<lambda>r. vendorId r = v) (tep_vendor_products (cur_db ?st1))))"
    by (auto simp: generic_plan_def vendor_find_def Let_def split: sum.splits if_splits)
  have fc: "feed_combinations v genv d fresh items = combs"
    using c by (simp add: feed_combinations_def Let_def)
  obtain new where n: "bulkOps ?st1 = new" "\<forall>op \<in> set new. \<exists>p c. writes_record v p c op"
    using generic_fold_ops[of v genv ?gs "init_state d fresh"] by (auto simp: init_state_def)
  show "\<exists>new. bulkOps st = new @ mark_out_of_stock (feed_combinations v genv d fresh items)
             (filter (\<lambda>r. vendorId r = v) (tep_vendor_products d)) \<and>
           (\<forall>op \<in> set new. \<exists>p c. writes_record v p c op) \<and>
           marked = length (mark_out_of_stock (feed_combinations v genv d fresh items)
             (filter (\<lambda>r. vendorId r = v) (tep_vendor_products d)))"
    using st m n fc v1 by auto
  show "tep_vendor_products (cur_db st) = tep_vendor_products d"
    using st current_combinations_vendor(1)[OF c] v1 by simp
qed

lemma generic_plan_Inl:
  assumes "generic_plan v genv d fresh resp = Inl (e, d1, f1)"
  shows "tep_vendor_products d1 = tep_vendor_products d"
proof (cases resp)
  case (Inl x)
  then show ?thesis using assms by (simp add: generic_plan_def)
next
  case (Inr items)
  let ?gs = "groupItemsByProductAndCondition items"
  let ?st1 = "fold (generic_group v genv) ?gs (init_state d fresh)"
  have v1: "tep_vendor_products (cur_db ?st1) = tep_vendor_products d"
    using generic_fold_vendor[of v genv ?gs "init_state d fresh"] by (simp add: init_state_def)
  from assms Inr have "d1 = cur_db ?st1 \<or>
      current_combinations genv ?gs (cur_db ?st1, fresh_id ?st1) = Inl (e, d1, f1)"
    by (auto simp: generic_plan_def Let_def split: sum.splits prod.splits)
  then show ?thesis using v1 current_combinations_vendor(2) by fastforce
qed

lemma mark_out_of_stock_no_delete:
  "\<forall>op \<in> set (mark_out_of_stock combs rs). \<not> is_delete op"
  by (auto simp: mark_out_of_stock_def)

lemma generic_plan_no_delete:
  assumes "generic_plan v genv d fresh resp = Inr (st, fetched, groups, marked)"
  shows "\<forall>op \<in> set (bulkOps st). \<not> is_delete op"
proof -
  from assms obtain items where i: "resp = Inr items"
    by (cases resp) (auto simp: generic_plan_def)
  show ?thesis
    using generic_plan_Inr(1)[OF assms[unfolded i]] mark_out_of_stock_no_delete
      writes_record_no_delete by fastforce
qed

lemma wholecell_plan_no_delete:
  assumes "wholecell_plan v d fresh resp = Inr (st, fetched, valid, skipped)"
  shows "\<forall>op \<in> set (bulkOps st). \<not> is_delete op"
  using wholecell_plan_ops[OF assms] writes_record_no_delete by blast

lemma syncWholecellVendor_ids:
  "prefix (map vp_id (tep_vendor_products d))
     (map vp_id (tep_vendor_products (fst (snd (syncWholecellVendor api d fresh resp)))))"
  using syncWholecellVendor_db[of api d fresh resp] wholecell_plan_no_delete bulkWrite_ids
  by fastforce

lemma syncVendor_db:
  "tep_vendor_products (fst (snd (syncVendor api genv d fresh resp))) = tep_vendor_products d \<or>
   (\<exists>st fetched groups marked f'.
      generic_plan (api_vendorId api) genv d fresh resp = Inr (st, fetched, groups, marked) \<and>
      bulkWrite (bulkOps st) (cur_db st, fresh_id st)
        = Inr (fst (snd (syncVendor api genv d fresh resp)), f'))"
proof (cases "generic_plan (api_vendorId api) genv d fresh resp")
  case (Inl x)
  obtain e d1 f1 where "x = (e, d1, f1)" by (cases x)
  then show ?thesis using Inl generic_plan_Inl[of "api_vendorId api" genv d fresh resp e d1 f1]
    by (simp add: syncVendor_def)
next
  case (Inr y)
  obtain st fetched groups marked where y: "y = (st, fetched, groups, marked)" by (cases y)
  obtain items where i: "resp = Inr items"
    using Inr by (cases resp) (auto simp: generic_plan_def)
  have v: "tep_vendor_products (cur_db st) = tep_vendor_products d"
    using generic_plan_Inr(2) Inr y i by blast
  show ?thesis using Inr y v
    by (auto simp: syncVendor_def split: sum.splits if_splits)
qed

lemma syncVendor_ids:
  "prefix (map vp_id (tep_vendor_products d))
     (map vp_id (tep_vendor_products (fst (snd (syncVendor api genv d fresh resp)))))"
proof -
  from syncVendor_db[of api genv d fresh resp] show ?thesis
  proof
    assume "tep_vendor_products (fst (snd (syncVendor api genv d fresh resp)))
        = tep_vendor_products d"
    then show ?thesis by simp
  next
    assume "\<exists>st fetched groups marked f'.
      generic_plan (api_vendorId api) genv d fresh resp = Inr (st, fetched, groups, marked) \<and>
      bulkWrite (bulkOps st) (cur_db st, fresh_id st)
        = Inr (fst (snd (syncVendor api genv d fresh resp)), f')"
    then obtain st fetched groups marked f' where
      p: "generic_plan (api_vendorId api) genv d fresh resp = Inr (st, fetched, groups, marked)"
      and b: "bulkWrite (bulkOps st) (cur_db st, fresh_id st)
        = Inr (fst (snd (syncVendor api genv d fresh resp)), f')"
      by blast
    obtain items where i: "resp = Inr items"
      using p by (cases resp) (auto simp: generic_plan_def)
    have "tep_vendor_products (cur_db st) = tep_vendor_products d"
      using generic_plan_Inr(2) p i by blast
    then show ?thesis using bulkWrite_ids[OF b generic_plan_no_delete[OF p]] by simp
  qed
qed

lemma zero_out_effect:
  "(\<forall>opt \<in> set (zero_out opts). stock opt = 0 \<and> uniqueNumbers opt = []) \<and>
   map option_identity (zero_out opts) = map option_identity opts"
  by (simp add: zero_out_def option_identity_def)

lemma writes_record_not_zero_out: "writes_record v p c op \<Longrightarrow> op \<noteq> zero_out_op r"
  by (cases op) (auto simp: zero_out_op_def)

lemma mark_out_of_stock_zero:
  "mark_out_of_stock combs rs
   = map zero_out_op (filter (\<lambda>ex. (product ex, condition ex) \<notin> set combs) rs)"
  by (simp add: mark_out_of_stock_def zero_out_op_def)

text \<open>
  Claim C1, amended. No pass of either adapter deletes a persisted record: the batch holds
  no delete, and the records persisted before the pass are there after it, in their
  places, under their identifiers, whether the pass returns or throws. The restricted
  adapter emits no zero-out. A pass of the generic adapter that runs to its batch emits the
  zero-out of every persisted record of the vendor whose (product, condition) is that of
  no group of the feed (\<open>feed_combinations\<close>: the combinations of all the groups, those
  without stock included), and no other zero-out; the zero-out is addressed by the
  identifier of the record, sets the stock of every option to 0 and its unit identifiers
  to the empty list, and leaves the rest of the options and of the record as it is.
  Nothing is said of the record of a group whose items are all sold, nor of a pass that
  throws.
\<close>

theorem records_persist_and_generic_zero_out:
  "prefix (map vp_id (tep_vendor_products d))
     (map vp_id (tep_vendor_products (fst (snd (syncWholecellVendor api d fresh resp))))) \<and>
   prefix (map vp_id (tep_vendor_products d))
     (map vp_id (tep_vendor_products (fst (snd (syncVendor api genv d fresh resp))))) \<and>
   (wholecell_plan v d fresh resp = Inr (st, fetched, valid, skipped) \<longrightarrow>
      (\<forall>op \<in> set (bulkOps st). \<not> is_delete op \<and> (\<forall>r. op \<noteq> zero_out_op r))) \<and>
   (generic_plan v genv d fresh (Inr items) = Inr (st', fetched', groups', marked') \<longrightarrow>
      (\<forall>op \<in> set (bulkOps st'). \<not> is_delete op) \<and>
      (\<forall>r \<in> set (tep_vendor_products d).
         vendorId r = v \<and>
         (product r, condition r) \<notin> set (feed_combinations v genv d fresh items)
         \<longrightarrow> zero_out_op r \<in> set (bulkOps st')) \<and>
      (\<forall>op \<in> set (bulkOps st').
         (\<exists>p c. writes_record v p c op) \<or>
         (\<exists>r \<in> set (tep_vendor_products d). vendorId r = v \<and>
            (product r, condition r) \<notin> set (feed_combinations v genv d fresh items) \<and>
            op = zero_out_op r))) \<and>
   (\<forall>opt \<in> set (zero_out opts). stock opt = 0 \<and> uniqueNumbers opt = []) \<and>
   map option_identity (zero_out opts) = map option_identity opts \<and>
   apply_set (SetSelectedOptions (zero_out (selectedOptions r0))) r0
     = r0\<lparr>selectedOptions := zero_out (selectedOptions r0)\<rparr>"
proof (intro conjI impI)
  show "prefix (map vp_id (tep_vendor_products d))
     (map vp_id (tep_vendor_products (fst (snd (syncWholecellVendor api d fresh resp)))))"
    by (rule syncWholecellVendor_ids)
  show "prefix (map vp_id (tep_vendor_products d))
     (map vp_id (tep_vendor_products (fst (snd (syncVendor api genv d fresh resp)))))"
    by (rule syncVendor_ids)
  show "\<forall>opt \<in> set (zero_out opts). stock opt = 0 \<and> uniqueNumbers opt = []"
    using zero_out_effect by blast
  show "map option_identity (zero_out opts) = map option_identity opts"
    using zero_out_effect by blast
  show "apply_set (SetSelectedOptions (zero_out (selectedOptions r0))) r0
     = r0\<lparr>selectedOptions := zero_out (selectedOptions r0)\<rparr>"
    by simp
next
  assume "wholecell_plan v d fresh resp = Inr (st, fetched, valid, skipped)"
  then show "\<forall>op \<in> set (bulkOps st). \<not> is_delete op \<and> (\<forall>r. op \<noteq> zero_out_op r)"
    using wholecell_plan_ops writes_record_no_delete writes_record_not_zero_out by blast
next
  let ?marks = "mark_out_of_stock (feed_combinations v genv d fresh items)
             (filter (\<lambda>r. vendorId r = v) (tep_vendor_products d))"
  assume p: "generic_plan v genv d fresh (Inr items) = Inr (st', fetched', groups', marked')"
  then show "\<forall>op \<in> set (bulkOps st'). \<not> is_delete op"
    by (rule generic_plan_no_delete)
  obtain new where n: "bulkOps st' = new @ ?marks"
    "\<forall>op \<in> set new. \<exists>p c. writes_record v p c op"
    using generic_plan_Inr(1)[OF p] by blast
  show "\<forall>r \<in> set (tep_vendor_products d).
         vendorId r = v \<and>
         (product r, condition r) \<notin> set (feed_combinations v genv d fresh items)
         \<longrightarrow> zero_out_op r \<in> set (bulkOps st')"
    unfolding n(1) mark_out_of_stock_zero by auto
  show "\<forall>op \<in> set (bulkOps st').
         (\<exists>p c. writes_record v p c op) \<or>
         (\<exists>r \<in> set (tep_vendor_products d). vendorId r = v \<and>
            (product r, condition r) \<notin> set (feed_combinations v genv d fresh items) \<and>
            op = zero_out_op r)"
    unfolding n(1) mark_out_of_stock_zero using n(2) by auto
qed

text \<open>
  A pass of the restricted adapter over the Acme feed, with a record persisted for
  another product: the batch is the insert for Acme X1 alone, and the other record, absent
  from the feed, keeps its stock of 3 and its unit identifiers. A pass of the generic
  adapter, with a \<^verbatim>\<open>condition\<close> bound, over a feed whose one item of Acme X1 is sold:
  the options of the group are all at stock 0, the group is discarded, and the record
  persisted for Acme X1 is neither updated nor zeroed. A pass of the generic adapter as
  the module stands, over the Acme feed: it throws, and the record of the other product
  keeps its stock.
\<close>

theorem restricted_pass_counterexample:
  "plan_ops (wholecell_plan 1 other_store 100 (Inr acme_feed))
     = [InsertOne \<lparr>vendorId = 1, product = 7, condition = fixedConditionId,
          selectedOptions = [black_128 2 [''item_1'', ''item_2''] 100\<lparr>opt_id := 100\<rparr>],
          database = Some ''wholecell''\<rparr>] \<and>
   hd (tep_vendor_products (fst (snd (syncWholecellVendor
         \<lparr>api_vendorId = 1, api_database = Some ''wholecell''\<rparr> other_store 100
         (Inr acme_feed))))) = other_record \<and>
   map stock (selectedOptions other_record) = [3] \<and>
   map stock (fst (createSelectedOptions [sold_item] 100)) = [0] \<and>
   plan_ops (generic_plan 1 (Some fixedConditionId) acme_store 100 (Inr [sold_item])) = [] \<and>
   \<not> isl (fst (syncVendor vendor_one (Some fixedConditionId) acme_store 100
                (Inr [sold_item]))) \<and>
   tep_vendor_products (fst (snd (syncVendor vendor_one (Some fixedConditionId) acme_store 100
       (Inr [sold_item]))))
     = [acme_record [black_128 3 [''a'', ''b'', ''c''] 90]] \<and>
   fst (syncVendor vendor_one None other_store 100 (Inr acme_feed))
     = Inl (ReferenceError ''condition'') \<and>
   tep_vendor_products (fst (snd (syncVendor vendor_one None other_store 100 (Inr acme_feed))))
     = [other_record]"
  by code_simp

theorem records_persist_witness:
  "zero_out_op other_record \<in> set (plan_ops (generic_plan 1 None other_store 100 (Inr []))) \<and>
   feed_combinations 1 None other_store 100 [] = [] \<and>
   zero_out_op other_record
     \<in> set (plan_ops (generic_plan 1 (Some fixedConditionId) other_store 100 (Inr acme_feed))) \<and>
   feed_combinations 1 (Some fixedConditionId) other_store 100 acme_feed
     = [(7, fixedConditionId)] \<and>
   plan_ops (wholecell_plan 1 other_store 100 (Inr acme_feed)) \<noteq> []"
proof -
  let ?e = "generic_plan 1 None other_store 100 (Inr [])"
  let ?g = "generic_plan 1 (Some fixedConditionId) other_store 100 (Inr acme_feed)"
  let ?w = "wholecell_plan 1 other_store 100 (Inr acme_feed)"
  have "\<not> isl ?e" by code_simp
  then obtain st0 fetched0 groups0 marked0 where
    e: "?e = Inr (st0, fetched0, groups0, marked0)"
    by (cases ?e) auto
  have "\<not> isl ?g" by code_simp
  then obtain st' fetched' groups' marked' where g: "?g = Inr (st', fetched', groups', marked')"
    by (cases ?g) auto
  have "\<not> isl ?w" by code_simp
  then obtain st fetched valid skipped where w: "?w = Inr (st, fetched, valid, skipped)"
    by (cases ?w) auto
  have c0: "feed_combinations 1 None other_store 100 [] = []" by code_simp
  have c: "feed_combinations 1 (Some fixedConditionId) other_store 100 acme_feed
     = [(7, fixedConditionId)]"
    by code_simp
  have r: "other_record \<in> set (tep_vendor_products other_store)" "vendorId other_record = 1"
    "(product other_record, condition other_record) \<notin> set [(7, fixedConditionId)]"
    by code_simp+
  have n: "plan_ops ?w \<noteq> []" by code_simp
  have "zero_out_op other_record \<in> set (bulkOps st0)"
    using records_persist_and_generic_zero_out[where d = other_store and fresh = 100
        and resp = "Inr acme_feed" and v = 1 and genv = None
        and items = "[]" and st' = st0 and fetched' = fetched0 and groups' = groups0
        and marked' = marked0 and st = st and fetched = fetched and valid = valid
        and skipped = skipped]
      e w r c0
    by auto
  moreover have "zero_out_op other_record \<in> set (bulkOps st')"
    using records_persist_and_generic_zero_out[where d = other_store and fresh = 100
        and resp = "Inr acme_feed" and v = 1 and genv = "Some fixedConditionId"
        and items = acme_feed and st' = st' and fetched' = fetched' and groups' = groups'
        and marked' = marked' and st = st and fetched = fetched and valid = valid
        and skipped = skipped]
      g w r c
    by auto
  ultimately show ?thesis using e g c0 c n by (simp add: plan_ops_def)
qed

text \<open>
  Claim C6 fails on the code. Restricted adapter: the lookup for the first group of the
  feed rejects, in the resolution loop that has no \<^verbatim>\<open>try\<close>; the pipeline throws that
  error and the Acme group after it is never processed. Generic adapter: the module binds
  no \<^verbatim>\<open>condition\<close>, and the second loop, outside the \<^verbatim>\<open>try\<close>, reads it for the first
  group of any feed; and with a \<^verbatim>\<open>condition\<close> bound, a lookup that rejects is caught in
  the first loop and thrown by the second.
\<close>

theorem group_failure_leaves_the_pipeline:
  "fst (syncWholecellVendor vendor_one flaky_catalog 100 (Inr mixed_feed))
     = Inl (StoreError (AdminFindOne ''^Zeta Z9$'')) \<and>
   fst (syncVendor vendor_one None acme_catalog 100 (Inr acme_feed))
     = Inl (ReferenceError ''condition'') \<and>
   fst (syncVendor vendor_one (Some fixedConditionId) flaky_generic_catalog 100 (Inr mixed_feed))
     = Inl (StoreError (AdminFindOne ''Zeta Z9''))"
  by code_simp

subsection \<open>Two runs of the restricted adapter over one feed\<close>

lemma find_append:
  "find P (xs @ ys) = (case find P xs of Some x \<Rightarrow> Some x | None \<Rightarrow> find P ys)"
  by (induction xs) auto

lemma find_update_first_other:
  "(\<And>x. P x \<Longrightarrow> \<not> Q x \<and> \<not> Q (f x)) \<Longrightarrow> find Q (update_first P f xs) = find Q xs"
  by (induction xs) auto


lemma update_first_none: "find P xs = None \<Longrightarrow> update_first P f xs = xs"
  by (induction xs) (auto split: if_splits)

lemma apply_other_key:
  assumes "writes_record v p c op" and "(v, p, c) \<noteq> (v', p', c')"
  shows "first_record v' p' c' (fst (apply_op op (rs, f))) = first_record v' p' c' rs"
proof (cases op)
  case (InsertOne data)
  then show ?thesis using assms
    by (auto simp: first_record_def find_append vendor_product_data.defs vendor_product.defs
        split: option.splits)
next
  case (UpdateOne flt u)
  then obtain data where u: "flt = ByKey v p c" "u = SetData data"
    "vendorId data = v" "product data = p" "condition data = c"
    using assms(1) by (cases flt; cases u) auto
  have "\<And>x. matches (ByKey v p c) x \<Longrightarrow>
      \<not> matches (ByKey v' p' c') x \<and> \<not> matches (ByKey v' p' c') (apply_set (SetData data) x)"
    using assms(2) u(3-5) by auto
  then have "find (matches (ByKey v' p' c'))
        (update_first (matches (ByKey v p c)) (apply_set (SetData data)) rs)
      = find (matches (ByKey v' p' c')) rs"
    by (rule find_update_first_other)
  then show ?thesis unfolding UpdateOne u(1,2) first_record_def by simp
next
  case (DeleteOne x)
  then show ?thesis using assms by simp
next
  case (DeleteMany x)
  then show ?thesis using assms by simp
qed






lemma fold_untouched:
  assumes "\<forall>op \<in> set ops. \<exists>p'. writes_record v p' c op"
    and "\<not> (\<exists>op \<in> set ops. writes_record v p c op)"
  shows "first_record v p c (fst (fold apply_op ops (rs, f))) = first_record v p c rs"
  using assms
proof (induction ops arbitrary: rs f)
  case Nil
  then show ?case by simp
next
  case (Cons op ops)
  obtain rs1 f1 where s: "apply_op op (rs, f) = (rs1, f1)" by (cases "apply_op op (rs, f)")
  obtain p' where w: "writes_record v p' c op" using Cons.prems(1) by auto
  have "p' \<noteq> p" using w Cons.prems(2) by auto
  then have "first_record v p c rs1 = first_record v p c rs"
    using apply_other_key[OF w, of v p c rs f] s by simp
  then show ?case using Cons.IH[of rs1 f1] Cons.prems s by simp
qed





lemma aggregation_rejects:
  "createSelectedOptionsForWholecell items d f = Inl e \<longleftrightarrow>
   rejects d (AdminFindIn (productNames_of items)) \<and>
   e = StoreError (AdminFindIn (productNames_of items))"
  by (auto simp: createSelectedOptionsForWholecell_def admin_find_in_def Let_def
      split: prod.splits)
































lemma key_of_erase_id [simp]: "key_of (erase_id opt) = key_of opt"
  by (simp add: erase_id_def key_of_def)





subsection \<open>The stock invariant across a pass\<close>

lemma apply_set_counted:
  "list_all stock_matches (payload (UpdateOne f u)) \<Longrightarrow>
   list_all stock_matches (selectedOptions (apply_set u r))"
  by (cases u) auto

lemma update_first_all:
  "(\<And>x. Q (f x)) \<Longrightarrow> list_all Q rs \<Longrightarrow> list_all Q (update_first P f rs)"
  by (induction rs) auto

lemma remove_first_all: "list_all Q rs \<Longrightarrow> list_all Q (remove_first P rs)"
  by (induction rs) auto

lemma apply_op_counted:
  assumes "list_all stock_matches (payload op)" and "records_counted rs"
  shows "records_counted (fst (apply_op op (rs, f)))"
proof (cases op)
  case (InsertOne data)
  then show ?thesis using assms
    by (simp add: records_counted_def vendor_product_data.defs)
next
  case (UpdateOne flt u)
  have "list_all (\<lambda>r. list_all stock_matches (selectedOptions r))
      (update_first (matches flt) (apply_set u) rs)"
    using assms UpdateOne apply_set_counted[of flt u]
    by (intro update_first_all) (auto simp: records_counted_def)
  then show ?thesis using UpdateOne by (simp add: records_counted_def)
next
  case (DeleteOne flt)
  then show ?thesis using assms by (simp add: records_counted_def remove_first_all)
next
  case (DeleteMany flt)
  then show ?thesis using assms by (auto simp: records_counted_def list_all_iff)
qed

lemma fold_apply_op_counted:
  "\<forall>op \<in> set ops. list_all stock_matches (payload op) \<Longrightarrow> records_counted rs \<Longrightarrow>
   records_counted (fst (fold apply_op ops (rs, f)))"
proof (induction ops arbitrary: rs f)
  case Nil
  then show ?case by simp
next
  case (Cons op ops)
  obtain rs1 f1 where s: "apply_op op (rs, f) = (rs1, f1)" by (cases "apply_op op (rs, f)")
  have "records_counted rs1"
    using apply_op_counted[of op rs f] Cons.prems s by simp
  then have "records_counted (fst (fold apply_op ops (rs1, f1)))"
    using Cons.IH Cons.prems by simp
  then show ?case using s by simp
qed

lemma bulkWrite_counted:
  assumes "bulkWrite ops (d, f) = Inr (d', f')"
    and "\<forall>op \<in> set ops. list_all stock_matches (payload op)"
    and "records_counted (tep_vendor_products d)"
  shows "records_counted (tep_vendor_products d')"
  using bulkWrite_result[OF assms(1)] fold_apply_op_counted[OF assms(2) assms(3)] by simp

lemma vendor_findOne_counted:
  assumes "vendor_findOne d v p c = Inr (Some ex)" and "records_counted (tep_vendor_products d)"
  shows "list_all stock_matches (selectedOptions ex)"
proof -
  from assms(1) have "find (matches (ByKey v p c)) (tep_vendor_products d) = Some ex"
    by (auto simp: vendor_findOne_def split: if_splits)
  then have "ex \<in> set (tep_vendor_products d)"
    by (auto simp: find_Some_iff)
  then show ?thesis using assms(2) by (simp add: records_counted_def list_all_iff)
qed

lemma wholecell_group_counted:
  assumes "records_counted (tep_vendor_products (cur_db st))"
  shows "\<exists>new. bulkOps (wholecell_group v kgp st) = bulkOps st @ new \<and>
           (\<forall>op \<in> set new. list_all stock_matches (payload op))"
proof -
  obtain k g p where kgp: "kgp = (k, g, p)" by (cases kgp)
  show ?thesis
  proof (cases "createSelectedOptionsForWholecell (g_items g) (cur_db st) (fresh_id st)")
    case (Inl e)
    then show ?thesis using kgp by (simp add: wholecell_group_def)
  next
    case (Inr r)
    obtain newOptions fresh' where r: "r = (newOptions, fresh')" by (cases r)
    have n: "list_all stock_matches newOptions"
      using createSelectedOptionsForWholecell_inv Inr r by blast
    show ?thesis
    proof (cases "vendor_findOne (cur_db st) v (ap_id p) fixedConditionId")
      case (Inl e)
      then show ?thesis using kgp Inr r by (simp add: wholecell_group_def Let_def)
    next
      case existing: (Inr existing)
      show ?thesis
      proof (cases existing)
        case None
        then show ?thesis using kgp Inr r existing n
          by (simp add: wholecell_group_def Let_def)
      next
        case (Some ex)
        have "list_all stock_matches (selectedOptions ex)"
          using vendor_findOne_counted existing Some assms by blast
        then have "list_all stock_matches (mergeSelectedOptions (selectedOptions ex) newOptions)"
          using n mergeSelectedOptions_matches by blast
        then show ?thesis using kgp Inr r existing Some
          by (simp add: wholecell_group_def Let_def)
      qed
    qed
  qed
qed

lemma wholecell_fold_counted:
  assumes "records_counted (tep_vendor_products (cur_db st))"
  shows "\<exists>new. bulkOps (fold (wholecell_group v) gs st) = bulkOps st @ new \<and>
           (\<forall>op \<in> set new. list_all stock_matches (payload op))"
  using assms
proof (induction gs arbitrary: st)
  case Nil
  then show ?case by simp
next
  case (Cons kgp gs)
  obtain n1 where n1: "bulkOps (wholecell_group v kgp st) = bulkOps st @ n1"
    "\<forall>op \<in> set n1. list_all stock_matches (payload op)"
    using wholecell_group_counted[OF Cons.prems] by blast
  have "records_counted (tep_vendor_products (cur_db (wholecell_group v kgp st)))"
    using Cons.prems by simp
  then obtain n2 where n2: "bulkOps (fold (wholecell_group v) gs (wholecell_group v kgp st))
      = bulkOps (wholecell_group v kgp st) @ n2"
    "\<forall>op \<in> set n2. list_all stock_matches (payload op)"
    using Cons.IH by blast
  have "bulkOps (fold (wholecell_group v) (kgp # gs) st) = bulkOps st @ (n1 @ n2)"
    using n1(1) n2(1) by simp
  moreover have "\<forall>op \<in> set (n1 @ n2). list_all stock_matches (payload op)"
    using n1(2) n2(2) by auto
  ultimately show ?case by blast
qed

lemma wholecell_plan_counted:
  assumes "wholecell_plan v d fresh resp = Inr (st, fetched, valid, skipped)"
    and "records_counted (tep_vendor_products d)"
  shows "\<forall>op \<in> set (bulkOps st). list_all stock_matches (payload op)"
proof -
  from assms(1) obtain gs where st: "st = fold (wholecell_group v) gs (init_state d fresh)"
    by (auto simp: wholecell_plan_def split: sum.splits)
  have "records_counted (tep_vendor_products (cur_db (init_state d fresh)))"
    using assms(2) by (simp add: init_state_def)
  then obtain new where "bulkOps st = bulkOps (init_state d fresh) @ new"
    "\<forall>op \<in> set new. list_all stock_matches (payload op)"
    using wholecell_fold_counted[of "init_state d fresh" v gs] st by blast
  then show ?thesis by (simp add: init_state_def)
qed

lemma syncWholecellVendor_counted:
  assumes "records_counted (tep_vendor_products d)"
  shows "records_counted (tep_vendor_products (fst (snd (syncWholecellVendor api d fresh resp))))"
  using syncWholecellVendor_db[of api d fresh resp] assms wholecell_plan_counted
    bulkWrite_counted
  by metis

lemma generic_group_counted:
  "\<exists>new. bulkOps (generic_group v genv kg st) = bulkOps st @ new \<and>
     (\<forall>op \<in> set new. list_all stock_matches (payload op))"
proof -
  obtain k g where kg: "kg = (k, g)" by (cases kg)
  show ?thesis
  proof (cases "findOrCreateProduct (g_product g) (cur_db st, fresh_id st)")
    case (Inl e)
    then show ?thesis using kg by (simp add: generic_group_def)
  next
    case (Inr r)
    obtain cp d1 f1 where r: "r = (cp, d1, f1)" by (cases r)
    obtain genOptions f2 where c: "createSelectedOptions (g_items g) f1 = (genOptions, f2)"
      by (cases "createSelectedOptions (g_items g) f1")
    have n: "list_all stock_matches genOptions"
      using createSelectedOptions_inv[of "g_items g" f1] c by simp
    show ?thesis using kg Inr r c n
      by (auto simp: generic_group_def Let_def split: sum.splits option.splits)
  qed
qed

lemma generic_fold_counted:
  "\<exists>new. bulkOps (fold (generic_group v genv) gs st) = bulkOps st @ new \<and>
     (\<forall>op \<in> set new. list_all stock_matches (payload op))"
proof (induction gs arbitrary: st)
  case Nil
  then show ?case by simp
next
  case (Cons kg gs)
  obtain n1 where n1: "bulkOps (generic_group v genv kg st) = bulkOps st @ n1"
    "\<forall>op \<in> set n1. list_all stock_matches (payload op)"
    using generic_group_counted by blast
  obtain n2 where n2: "bulkOps (fold (generic_group v genv) gs (generic_group v genv kg st))
      = bulkOps (generic_group v genv kg st) @ n2"
    "\<forall>op \<in> set n2. list_all stock_matches (payload op)"
    using Cons.IH by blast
  have "bulkOps (fold (generic_group v genv) (kg # gs) st) = bulkOps st @ (n1 @ n2)"
    using n1(1) n2(1) by simp
  moreover have "\<forall>op \<in> set (n1 @ n2). list_all stock_matches (payload op)"
    using n1(2) n2(2) by auto
  ultimately show ?case by blast
qed

lemma mark_out_of_stock_counted:
  "\<forall>op \<in> set (mark_out_of_stock combs rs). list_all stock_matches (payload op)"
  by (auto simp: mark_out_of_stock_def zero_out_matches)

lemma generic_plan_counted:
  assumes "generic_plan v genv d fresh resp = Inr (st, fetched, groups, marked)"
  shows "\<forall>op \<in> set (bulkOps st). list_all stock_matches (payload op)"
proof -
  from assms obtain items where i: "resp = Inr items"
    by (cases resp) (auto simp: generic_plan_def)
  let ?gs = "groupItemsByProductAndCondition items"
  let ?st1 = "fold (generic_group v genv) ?gs (init_state d fresh)"
  from assms i obtain combs where
    st: "bulkOps st = bulkOps ?st1 @ mark_out_of_stock combs
               (filter (\<lambda>r. vendorId r = v) (tep_vendor_products (cur_db ?st1)))"
    by (auto simp: generic_plan_def vendor_find_def Let_def split: sum.splits if_splits)
  obtain new where "bulkOps ?st1 = new" "\<forall>op \<in> set new. list_all stock_matches (payload op)"
    using generic_fold_counted[of v genv ?gs "init_state d fresh"] by (auto simp: init_state_def)
  then show ?thesis using st mark_out_of_stock_counted by auto
qed

lemma syncVendor_counted:
  assumes "records_counted (tep_vendor_products d)"
  shows "records_counted (tep_vendor_products (fst (snd (syncVendor api genv d fresh resp))))"
proof -
  from syncVendor_db[of api genv d fresh resp] show ?thesis
  proof
    assume "tep_vendor_products (fst (snd (syncVendor api genv d fresh resp)))
        = tep_vendor_products d"
    then show ?thesis using assms by simp
  next
    assume "\<exists>st fetched groups marked f'.
      generic_plan (api_vendorId api) genv d fresh resp = Inr (st, fetched, groups, marked) \<and>
      bulkWrite (bulkOps st) (cur_db st, fresh_id st)
        = Inr (fst (snd (syncVendor api genv d fresh resp)), f')"
    then obtain st fetched groups marked f' where
      p: "generic_plan (api_vendorId api) genv d fresh resp = Inr (st, fetched, groups, marked)"
      and w: "bulkWrite (bulkOps st) (cur_db st, fresh_id st)
        = Inr (fst (snd (syncVendor api genv d fresh resp)), f')"
      by blast
    obtain items where i: "resp = Inr items"
      using p by (cases resp) (auto simp: generic_plan_def)
    have "tep_vendor_products (cur_db st) = tep_vendor_products d"
      using generic_plan_Inr(2) p i by blast
    then have "records_counted (tep_vendor_products (cur_db st))" using assms by simp
    then show ?thesis using bulkWrite_counted[OF w generic_plan_counted[OF p]] by simp
  qed
qed

text \<open>
  Claim C10. The stock of an option equals the number of its unit identifiers: for every
  option aggregated by either adapter, for every option of a merge of two lists that have
  the property, and for every option of a zeroed list. Hence a pass of either adapter over
  a collection of records whose options all have the property leaves such a collection,
  whatever the feed and whichever calls fail.
\<close>
theorem stock_counts_unit_identifiers:
  "list_all stock_matches (fst (createSelectedOptions items fresh)) \<and>
   (\<forall>opts fresh'. createSelectedOptionsForWholecell items d fresh = Inr (opts, fresh')
      \<longrightarrow> list_all stock_matches opts) \<and>
   (list_all stock_matches existingOptions \<and> list_all stock_matches newOptions
      \<longrightarrow> list_all stock_matches (mergeSelectedOptions existingOptions newOptions)) \<and>
   list_all stock_matches (zero_out persisted) \<and>
   (records_counted (tep_vendor_products d)
      \<longrightarrow> records_counted
            (tep_vendor_products (fst (snd (syncWholecellVendor api d fresh resp)))) \<and>
          records_counted
            (tep_vendor_products (fst (snd (syncVendor api genv d fresh resp)))))"
  using createSelectedOptions_inv createSelectedOptionsForWholecell_inv
    mergeSelectedOptions_matches zero_out_matches syncWholecellVendor_counted
    syncVendor_counted
  by blast

theorem stock_counts_witness:
  "list_all stock_matches (fst (createSelectedOptions acme_feed 100)) \<and>
   createSelectedOptionsForWholecell acme_feed acme_store 100
     = Inr ([black_128 2 [''item_1'', ''item_2''] 100\<lparr>opt_id := 100\<rparr>], 101) \<and>
   list_all stock_matches [black_128 2 [''item_1'', ''item_2''] 100\<lparr>opt_id := 100\<rparr>] \<and>
   list_all stock_matches [black_128 3 [''a'', ''b'', ''c''] 90] \<and>
   list_all stock_matches (mergeSelectedOptions [black_128 3 [''a'', ''b'', ''c''] 90]
     [black_128 2 [''item_1'', ''item_2''] 100\<lparr>opt_id := 100\<rparr>]) \<and>
   list_all stock_matches (zero_out [black_128 3 [''a'', ''b'', ''c''] 90]) \<and>
   records_counted (tep_vendor_products acme_store) \<and>
   records_counted (tep_vendor_products
     (fst (snd (syncWholecellVendor vendor_one acme_store 100 (Inr acme_feed))))) \<and>
   records_counted (tep_vendor_products
     (fst (snd (syncVendor vendor_one (Some fixedConditionId) acme_store 100
        (Inr acme_feed)))))"
proof -
  let ?new = "[black_128 2 [''item_1'', ''item_2''] 100\<lparr>opt_id := 100\<rparr>]"
  let ?old = "[black_128 3 [''a'', ''b'', ''c''] 90]"
  have h1: "createSelectedOptionsForWholecell acme_feed acme_store 100 = Inr (?new, 101)"
    by code_simp
  have h2: "list_all stock_matches ?old" by code_simp
  have h3: "records_counted (tep_vendor_products acme_store)" by code_simp
  show ?thesis
    using stock_counts_unit_identifiers[of acme_feed 100 acme_store ?old ?new ?old
        vendor_one "Inr acme_feed" "Some fixedConditionId"] h1 h2 h3
    by simp
qed

subsection \<open>The update of a persisted record, per option key\<close>









text \<open>
  The persisted option has the key ("Space", "Gray_128GB 4GB RAM") and the re-observed one
  the key ("Space_Gray", "128GB 4GB RAM"): two different keys, both written
  "Space_Gray_128GB 4GB RAM". The update of the restricted adapter carries one option, of
  the persisted key, with the stocks summed; the merge per option key keeps the two.
\<close>

theorem update_policy_counterexample:
  "bulkOps (wholecell_group 1 (''Acme_X1_Unknown'', gray_group, catalog_entry 7 ''Acme X1'' None)
      (init_state gray_store 100))
   = [UpdateOne (ByKey 1 7 fixedConditionId)
        (SetData \<lparr>vendorId = 1, product = 7, condition = fixedConditionId,
           selectedOptions =
             [\<lparr>color = ''Space'', variant = ''Gray_128GB 4GB RAM'', stock = 4, price = 90,
               discount = 90, uniqueNumbers = [''a'', ''b'', ''c'', ''item_4''], opt_id = 0\<rparr>],
           database = Some ''wholecell''\<rparr>)] \<and>
   createSelectedOptionsForWholecell [gray_item] gray_store 100
   = Inr ([\<lparr>color = ''Space_Gray'', variant = ''128GB 4GB RAM'', stock = 1, price = 100,
            discount = 100, uniqueNumbers = [''item_4''], opt_id = 100\<rparr>], 101) \<and>
   merge_spec [gray_option]
     [\<lparr>color = ''Space_Gray'', variant = ''128GB 4GB RAM'', stock = 1, price = 100,
       discount = 100, uniqueNumbers = [''item_4''], opt_id = 100\<rparr>]
   = [gray_option,
      \<lparr>color = ''Space_Gray'', variant = ''128GB 4GB RAM'', stock = 1, price = 100,
       discount = 100, uniqueNumbers = [''item_4''], opt_id = 100\<rparr>]"
  by code_simp


subsection \<open>The routes: one entry per vendor\<close>






lemma api_of_doc [simp]: "api_of (doc_of api) = Some api"
  by (simp add: api_of_def doc_of_def)










lemma map2_nth:
  "length ys = length xs \<Longrightarrow> i < length xs \<Longrightarrow> map2 f xs ys ! i = f (xs ! i) (ys ! i)"
  by simp













text \<open>
  The first document has no \<^verbatim>\<open>vendorId\<close> and its fetch fails: each route answers 500,
  where it answers with the summary of vendor 2 when that document is not in the list.
  The write of the default database name for the document of vendor 1 is rejected: the
  route of the restricted module answers 500.
\<close>

theorem vendor_failures_counterexample:
  "wholecell_route (Inr [(nameless_doc, Inl FetchError), (doc_of vendor_two, Inr acme_feed)])
     writes_stored (acme_catalog, 100) = Status500 \<and>
   wholecell_route (Inr [(doc_of vendor_two, Inr acme_feed)]) writes_stored (acme_catalog, 100)
     = Json [Fulfilled acme_summary] \<and>
   sync_route None (Inr [(nameless_doc, Inl FetchError), (doc_of vendor_two, Inr [])])
     (acme_catalog, 100) = Status500 \<and>
   sync_route None (Inr [(doc_of vendor_two, Inr [])]) (acme_catalog, 100)
     = Json [Fulfilled empty_summary] \<and>
   wholecell_route (Inr [(bare_doc, Inl FetchError), (doc_of vendor_two, Inr acme_feed)])
     writes_rejected (acme_catalog, 100) = Status500 \<and>
   wholecell_route (Inr [(bare_doc, Inl FetchError), (doc_of vendor_two, Inr acme_feed)])
     writes_stored (acme_catalog, 100)
     = Json [ErrorEntry 1 (Some ''wholecell'') FetchError, Fulfilled acme_summary]"
  by code_simp


end
